theory Spec2Isabelle
  imports Main
begin

section \<open>The browser script of radiateTPS: fetch, validate, shape, render\<close>

text \<open>
  A shallow embedding of \<^verbatim>\<open>src/frontend/assets/js/script.js\<close>. Every exported
  asynchronous function becomes a function from the outcome of its one network request
  and the page it starts on to the settlement of its promise and the page it leaves.
  An operation is modelled as running without another task touching the page between
  its suspension points.
\<close>

subsection \<open>JavaScript values\<close>

text \<open>
  The errors the script can meet. \<open>NetworkFailure\<close> is the rejection of \<^verbatim>\<open>fetch\<close>,
  \<open>ServerError\<close> the \<^verbatim>\<open>Error\<close> thrown at line 8, \<open>SyntaxError\<close> the failure to parse
  a body as JSON, \<open>TypeError\<close> a property read on \<^verbatim>\<open>null\<close> or \<^verbatim>\<open>undefined\<close>, a
  call of something that is no function, or a failed string conversion. Message texts
  of the runtime's own errors are the runtime's; the model keeps a text that names what
  happened.
\<close>

datatype error =
    NetworkFailure string
  | ServerError nat
  | SyntaxError string
  | TypeError string

text \<open>
  Values: what \<^verbatim>\<open>JSON.parse\<close> can return, and \<^verbatim>\<open>undefined\<close>. A number is carried
  as the text that its conversion to a string gives, which is all the script observes of
  a number apart from truthiness (zero of either sign renders as \<open>''0''\<close>). An object is
  the list of its own properties, each name once.
\<close>

datatype jsval =
    Undefined
  | Null
  | Bool bool
  | Num string
  | Str string
  | Arr "jsval list"
  | Obj "(string \<times> jsval) list"

fun truthy :: "jsval \<Rightarrow> bool" where
  "truthy Undefined = False"
| "truthy Null = False"
| "truthy (Bool b) = b"
| "truthy (Num n) = (n \<noteq> ''0'' \<and> n \<noteq> ''NaN'')"
| "truthy (Str s) = (s \<noteq> [])"
| "truthy (Arr xs) = True"
| "truthy (Obj ps) = True"

text \<open>
  The property read \<^verbatim>\<open>v.k\<close>, for a name \<open>k\<close> that no built-in prototype defines
  (every name the script reads is one): it throws on \<^verbatim>\<open>null\<close> and \<^verbatim>\<open>undefined\<close>,
  finds an own property of an object, and is \<^verbatim>\<open>undefined\<close> otherwise.
\<close>

fun get :: "jsval \<Rightarrow> string \<Rightarrow> error + jsval" where
  "get Undefined k = Inl (TypeError (''Cannot read properties of undefined (reading '' @ k @ '')''))"
| "get Null k = Inl (TypeError (''Cannot read properties of null (reading '' @ k @ '')''))"
| "get (Obj ps) k = Inr (case map_of ps k of None \<Rightarrow> Undefined | Some v \<Rightarrow> v)"
| "get v k = Inr Undefined"

fun join :: "string \<Rightarrow> string list \<Rightarrow> string" where
  "join sep [] = []"
| "join sep [x] = x"
| "join sep (x # y # ys) = x @ sep @ join sep (y # ys)"

text \<open>
  The string conversion of a template literal. An array joins its elements with commas,
  \<^verbatim>\<open>null\<close> and \<^verbatim>\<open>undefined\<close> elements as the empty string. An object parsed from
  JSON is \<^verbatim>\<open>[object Object]\<close>, unless it has an own property \<^verbatim>\<open>toString\<close>: that one
  is no function, and the conversion throws.
\<close>

fun to_string :: "jsval \<Rightarrow> error + string"
  and to_strings :: "jsval list \<Rightarrow> error + string list" where
  "to_string Undefined = Inr ''undefined''"
| "to_string Null = Inr ''null''"
| "to_string (Bool b) = Inr (if b then ''true'' else ''false'')"
| "to_string (Num n) = Inr n"
| "to_string (Str s) = Inr s"
| "to_string (Arr xs) =
     (case to_strings xs of Inl e \<Rightarrow> Inl e | Inr ss \<Rightarrow> Inr (join '','' ss))"
| "to_string (Obj ps) =
     (if ''toString'' \<in> fst ` set ps
      then Inl (TypeError ''Cannot convert object to primitive value'')
      else Inr ''[object Object]'')"
| "to_strings [] = Inr []"
| "to_strings (x # xs) =
     (case (if x = Undefined \<or> x = Null then Inr [] else to_string x) of
        Inl e \<Rightarrow> Inl e
      | Inr s \<Rightarrow> (case to_strings xs of Inl e \<Rightarrow> Inl e | Inr ss \<Rightarrow> Inr (s # ss)))"

text \<open>
  Assigning a value to \<^verbatim>\<open>textContent\<close> (a nullable string attribute): \<^verbatim>\<open>null\<close> and
  \<^verbatim>\<open>undefined\<close> give the empty text.
\<close>

definition textContent_of :: "jsval \<Rightarrow> error + string" where
  "textContent_of v = (if v = Undefined \<or> v = Null then Inr [] else to_string v)"

text \<open>
  The receiver of \<^verbatim>\<open>v.forEach(...)\<close>: the elements of an array; a \<open>TypeError\<close> for
  every other value (a value parsed from JSON holds no function).
\<close>

fun forEach_of :: "jsval \<Rightarrow> error + jsval list" where
  "forEach_of (Arr xs) = Inr xs"
| "forEach_of Undefined =
     Inl (TypeError ''Cannot read properties of undefined (reading forEach)'')"
| "forEach_of Null = Inl (TypeError ''Cannot read properties of null (reading forEach)'')"
| "forEach_of v = Inl (TypeError ''forEach is not a function'')"

subsection \<open>Strings\<close>

text \<open>
  A string is a list of code units, here those below 256. \<open>is_space\<close> is the class
  that both \<^verbatim>\<open>trim()\<close> and the pattern \<^verbatim>\<open>\s\<close> use, on these code units.
\<close>

definition is_space :: "char \<Rightarrow> bool" where
  "is_space c =
     (c \<in> set [CHR 0x09, CHR 0x0A, CHR 0x0B, CHR 0x0C, CHR 0x0D, CHR 0x20, CHR 0xA0])"

definition trim :: "string \<Rightarrow> string" where
  "trim s = rev (dropWhile is_space (rev (dropWhile is_space s)))"

text \<open>\<^verbatim>\<open>s.replace(/\s+/g, ' ')\<close>: every maximal run of whitespace becomes one space.\<close>

function replace_ws :: "string \<Rightarrow> string" where
  "replace_ws [] = []"
| "replace_ws (c # cs) =
     (if is_space c then CHR '' '' # replace_ws (dropWhile is_space cs)
      else c # replace_ws cs)"
  by pat_completeness auto
termination
  by (relation "measure length") (auto simp: length_dropWhile_le less_Suc_eq_le)

text \<open>\<^verbatim>\<open>s.includes(t)\<close>.\<close>

fun str_includes :: "string \<Rightarrow> string \<Rightarrow> bool" where
  "str_includes [] t = (t = [])"
| "str_includes (c # cs) t = (take (length t) (c # cs) = t \<or> str_includes cs t)"

text \<open>A status code in a template literal: its decimal digits.\<close>

fun dec :: "nat \<Rightarrow> string" where
  "dec n =
     (if n < 10 then [''0123456789'' ! n]
      else dec (n div 10) @ [''0123456789'' ! (n mod 10)])"

declare dec.simps [simp del]

definition message :: "error \<Rightarrow> string" where
  "message e =
     (case e of
        NetworkFailure m \<Rightarrow> m
      | ServerError n \<Rightarrow> ''Server error: '' @ dec n
      | SyntaxError m \<Rightarrow> m
      | TypeError m \<Rightarrow> m)"

subsection \<open>Requests, responses and the page\<close>

type_synonym dicom_file = string

datatype body =
    NoBody
  | FormData "(string \<times> dicom_file) list"
  | JsonText jsval

record request =
  http_method :: string
  url :: string
  headers :: "(string \<times> string) list"
  body :: body

text \<open>
  A response: its status, the value of its \<^verbatim>\<open>content-type\<close> header (\<open>None\<close> when the
  header is absent), its body as text, and what parsing that text as JSON gives
  (\<open>Inl\<close> the parser's message when it is no JSON text). The JSON parser is the
  runtime's and is not modelled: a response carries both readings of its body. Once
  the response is there, its body is taken to arrive whole.
\<close>

record response =
  status :: nat
  content_type :: "string option"
  text_body :: string
  json_body :: "string + jsval"

datatype fetch_result =
    Failed string
  | Responded response

definition ok :: "response \<Rightarrow> bool" where
  "ok r = (200 \<le> status r \<and> status r \<le> 299)"

datatype logarg = Text string | Val jsval | Err error

text \<open>What the script does to the world outside the page's elements, in order.\<close>

datatype event =
    ConsoleLog "logarg list"
  | ConsoleError "logarg list"
  | Alert string
  | Fetch request
  | ReadJson
  | ReadText
  | ParseJson

text \<open>
  A child of a list region. \<open>Li\<close> is a list item with its text content and, where
  the script gives it a click handler, the dataset name that handler alerts; whether
  \<^verbatim>\<open>createElement\<close> made it or the browser's parser did makes no difference to the
  page. \<open>Markup\<close> stands for the nodes the parser makes of markup that is not read
  here, kept as its text.
\<close>

datatype node =
    Markup string
  | Li string "jsval option"

record option_el =
  opt_value :: string
  opt_textContent :: string
  opt_disabled :: bool
  opt_selected :: bool
  opt_hidden :: bool

text \<open>The value of a select element: that of its first selected option, else empty.\<close>

definition select_value :: "option_el list \<Rightarrow> string" where
  "select_value opts =
     (case filter opt_selected opts of [] \<Rightarrow> [] | opt # _ \<Rightarrow> opt_value opt)"

text \<open>A chart panel holds the traces and the layout of the last plot drawn on it.\<close>

type_synonym plot = "jsval list \<times> jsval"

record page =
  dicom_folder :: "dicom_file list"
  roi_list :: "node list"
  dataset_list :: "node list"
  datasetDropdown :: "option_el list"
  patient_list :: "node list"
  patient_id :: string
  patient_first_name :: string
  patient_middle_name :: string
  patient_last_name :: string
  patient_dob :: string
  patient_sex :: string
  plotly_ct_dose :: "plot option"
  plotly_dvh :: "plot option"
  plotly_ct_overlay :: "plot option"
  effects :: "event list"

text \<open>
  Assigning to \<^verbatim>\<open>innerHTML\<close> replaces the children by what the browser's parser
  makes of the markup. The empty string gives no child. One \<^verbatim>\<open><li>\<close> element around
  text that the parser takes literally (no tag or character reference opens in it, and
  it has no NUL and no carriage return, which the parser drops or rewrites) gives that
  one item. Other markup is not read.
\<close>

definition plain_text :: "string \<Rightarrow> bool" where
  "plain_text t = list_all (\<lambda>c. c \<notin> set [CHR ''<'', CHR ''&'', CHR 0x00, CHR 0x0D]) t"

definition set_innerHTML :: "string \<Rightarrow> node list" where
  "set_innerHTML s =
     (if s = [] then []
      else if 9 \<le> length s \<and> take 4 s = ''<li>'' \<and> drop (length s - 5) s = ''</li>''
              \<and> plain_text (take (length s - 9) (drop 4 s))
      then [Li (take (length s - 9) (drop 4 s)) None]
      else [Markup s])"

subsection \<open>Statements that may throw\<close>

type_synonym 'a js = "page \<Rightarrow> (error + 'a) \<times> page"

definition return :: "'a \<Rightarrow> 'a js" where
  "return x st = (Inr x, st)"

definition throw :: "error \<Rightarrow> 'a js" where
  "throw e st = (Inl e, st)"

definition lift :: "error + 'a \<Rightarrow> 'a js" where
  "lift r st = (r, st)"

definition bind :: "'a js \<Rightarrow> ('a \<Rightarrow> 'b js) \<Rightarrow> 'b js" where
  "bind m f st = (case m st of (Inl e, st') \<Rightarrow> (Inl e, st') | (Inr x, st') \<Rightarrow> f x st')"

definition catch :: "'a js \<Rightarrow> (error \<Rightarrow> 'a js) \<Rightarrow> 'a js" where
  "catch m h st = (case m st of (Inl e, st') \<Rightarrow> h e st' | (Inr x, st') \<Rightarrow> (Inr x, st'))"

definition modify :: "(page \<Rightarrow> page) \<Rightarrow> unit js" where
  "modify f st = (Inr (), f st)"

definition emit :: "event \<Rightarrow> unit js" where
  "emit ev = modify (\<lambda>st. st\<lparr>effects := effects st @ [ev]\<rparr>)"

primrec forEach :: "('a \<Rightarrow> unit js) \<Rightarrow> 'a list \<Rightarrow> unit js" where
  "forEach f [] st = (Inr (), st)"
| "forEach f (x # xs) st =
     (case f x st of (Inl e, st') \<Rightarrow> (Inl e, st') | (Inr u, st') \<Rightarrow> forEach f xs st')"

text \<open>The promise of an asynchronous function, once settled.\<close>

datatype outcome = Fulfilled | Rejected error

definition run :: "unit js \<Rightarrow> page \<Rightarrow> outcome \<times> page" where
  "run m st = (case m st of (Inl e, st') \<Rightarrow> (Rejected e, st') | (Inr u, st') \<Rightarrow> (Fulfilled, st'))"

text \<open>
  \<^verbatim>\<open>await fetch(...)\<close>: the request goes out, and the outcome the network gives is
  either a rejection or a response. \<^verbatim>\<open>response.json()\<close>, \<^verbatim>\<open>response.text()\<close> and
  \<^verbatim>\<open>JSON.parse(text)\<close> on the text of the response leave a mark when they are called.
\<close>

definition fetch :: "request \<Rightarrow> fetch_result \<Rightarrow> response js" where
  "fetch req r =
     bind (emit (Fetch req)) (\<lambda>_.
       case r of Failed m \<Rightarrow> throw (NetworkFailure m) | Responded resp \<Rightarrow> return resp)"

definition response_json :: "response \<Rightarrow> jsval js" where
  "response_json resp =
     bind (emit ReadJson) (\<lambda>_.
       case json_body resp of Inl m \<Rightarrow> throw (SyntaxError m) | Inr v \<Rightarrow> return v)"

definition response_text :: "response \<Rightarrow> string js" where
  "response_text resp = bind (emit ReadText) (\<lambda>_. return (text_body resp))"

definition JSON_parse :: "response \<Rightarrow> jsval js" where
  "JSON_parse resp =
     bind (emit ParseJson) (\<lambda>_.
       case json_body resp of Inl m \<Rightarrow> throw (SyntaxError m) | Inr v \<Rightarrow> return v)"

definition console_log :: "logarg list \<Rightarrow> unit js" where
  "console_log args = emit (ConsoleLog args)"

definition console_error :: "logarg list \<Rightarrow> unit js" where
  "console_error args = emit (ConsoleError args)"

definition alert :: "string \<Rightarrow> unit js" where
  "alert msg = emit (Alert msg)"

definition gets :: "(page \<Rightarrow> 'a) \<Rightarrow> 'a js" where
  "gets f st = (Inr (f st), st)"

text \<open>
  A \<^verbatim>\<open>try\<close> block whose handler leaves the function: \<open>h\<close> is the handler, \<open>k\<close>
  the statements after the block.
\<close>

definition handle :: "'a js \<Rightarrow> (error \<Rightarrow> 'b js) \<Rightarrow> ('a \<Rightarrow> 'b js) \<Rightarrow> 'b js" where
  "handle m h k st = (case m st of (Inl e, st') \<Rightarrow> h e st' | (Inr x, st') \<Rightarrow> k x st')"

definition GET :: "string \<Rightarrow> request" where
  "GET u = \<lparr>http_method = ''GET'', url = u, headers = [], body = NoBody\<rparr>"

subsection \<open>fetchDoseData\<close>

text \<open>
  The charting library is not part of the repository: \<^verbatim>\<open>Plotly.newPlot\<close> is taken to
  put the traces and the layout it is given on the panel it names, and not to throw.
\<close>

definition layout1 :: jsval where
  "layout1 = Obj [
     (''title'', Str ''CT with ROI''),
     (''xaxis'', Obj [(''title'', Str ''X Axis'')]),
     (''yaxis'', Obj [
        (''title'', Str ''Y Axis''),
        (''scaleanchor'', Str ''x''),
        (''scaleratio'', Num ''1''),
        (''autorange'', Str ''reversed'')]),
     (''showlegend'', Bool False)]"

definition heatmap :: "jsval \<Rightarrow> jsval" where
  "heatmap ct = Obj [
     (''z'', ct),
     (''type'', Str ''heatmap''),
     (''zmin'', Num ''-1000''),
     (''zmax'', Num ''0''),
     (''colorscale'', Arr [Arr [Num ''0'', Str ''white''], Arr [Num ''1'', Str ''black'']]),
     (''showscale'', Bool False),
     (''opacity'', Num ''1'')]"

definition doseMap :: "jsval \<Rightarrow> jsval" where
  "doseMap dose = Obj [
     (''z'', dose),
     (''type'', Str ''heatmap''),
     (''colorscale'', Str ''Jet''),
     (''opacity'', Num ''0.5'')]"

definition maskContour :: "jsval \<Rightarrow> jsval" where
  "maskContour mask_slice = Obj [
     (''z'', mask_slice),
     (''type'', Str ''contour''),
     (''line'', Obj [(''color'', Str ''red''), (''width'', Num ''2'')]),
     (''showscale'', Bool False)]"

definition layout2 :: jsval where
  "layout2 = Obj [
     (''title'', Str ''Dose Volume Histogram''),
     (''xaxis'', Obj [(''title'', Str ''Dose (Gy)'')]),
     (''yaxis'', Obj [(''title'', Str ''Volume (%)'')])]"

definition dvhPlot :: "jsval \<Rightarrow> jsval \<Rightarrow> jsval" where
  "dvhPlot dose_values volume_percentages = Obj [
     (''x'', dose_values),
     (''y'', volume_percentages),
     (''type'', Str ''scatter''),
     (''mode'', Str ''lines+markers''),
     (''name'', Str ''Target ROI'')]"

definition layoutDoseOverlay :: jsval where
  "layoutDoseOverlay = Obj [
     (''title'', Str ''CT Slice + Dose Distribution + ROI Contour''),
     (''xaxis'', Obj [(''title'', Str ''X Axis''), (''showgrid'', Bool False)]),
     (''yaxis'', Obj [
        (''title'', Str ''Y Axis''),
        (''showgrid'', Bool False),
        (''scaleanchor'', Str ''x''),
        (''scaleratio'', Num ''1''),
        (''autorange'', Str ''reversed'')]),
     (''showlegend'', Bool False)]"

definition ctLayer :: "jsval \<Rightarrow> jsval" where
  "ctLayer ct = Obj [
     (''z'', ct),
     (''type'', Str ''heatmap''),
     (''colorscale'', Str ''Greys''),
     (''showscale'', Bool False),
     (''opacity'', Num ''1''),
     (''hoverinfo'', Str ''skip'')]"

definition maskLayer :: "jsval \<Rightarrow> jsval" where
  "maskLayer mask_slice = Obj [
     (''z'', mask_slice),
     (''type'', Str ''heatmap''),
     (''colorscale'', Arr [Arr [Num ''0'', Str ''rgba(0,0,0,0)''],
                           Arr [Num ''1'', Str ''rgba(255,0,0,0.4)'']]),
     (''showscale'', Bool False),
     (''opacity'', Num ''1''),
     (''hoverinfo'', Str ''skip'')]"

definition doseLayer :: "jsval \<Rightarrow> jsval" where
  "doseLayer dose = Obj [
     (''z'', dose),
     (''type'', Str ''heatmap''),
     (''colorscale'', Str ''Jet''),
     (''showscale'', Bool True),
     (''opacity'', Num ''0.4''),
     (''colorbar'', Obj [(''title'', Str ''Dose (Gy)'')]),
     (''hoverinfo'', Str ''skip'')]"

text \<open>The body of the \<^verbatim>\<open>try\<close> block, lines 5 to 126.\<close>

definition fetchDoseData_try :: "fetch_result \<Rightarrow> unit js" where
  "fetchDoseData_try r =
     bind (fetch (GET ''/plotly/compute_dose'') r) (\<lambda>response.
     if \<not> ok response then throw (ServerError (status response)) else
     bind (response_json response) (\<lambda>data.
     bind (console_log [Text ''Received dose data:'', Val data]) (\<lambda>_.
     bind (lift (get data ''ct_slice'')) (\<lambda>ct.
     bind (lift (get data ''mask_slice'')) (\<lambda>mask_slice.
     bind (lift (get data ''dose_slice'')) (\<lambda>dose.
     bind (lift (get data ''dvh'')) (\<lambda>dvh.
     bind (modify (\<lambda>st. st\<lparr>plotly_ct_dose :=
             Some ([heatmap ct, maskContour mask_slice, doseMap dose], layout1)\<rparr>)) (\<lambda>_.
     bind (lift (get dvh ''dose_values'')) (\<lambda>dose_values.
     bind (lift (get dvh ''volume_percentages'')) (\<lambda>volume_percentages.
     bind (modify (\<lambda>st. st\<lparr>plotly_dvh :=
             Some ([dvhPlot dose_values volume_percentages], layout2)\<rparr>)) (\<lambda>_.
     bind (modify (\<lambda>st. st\<lparr>plotly_ct_overlay :=
             Some ([ctLayer ct, doseLayer dose, maskLayer mask_slice], layoutDoseOverlay)\<rparr>)) (\<lambda>_.
     console_log [Text ''Finished plotting dose data'']))))))))))))"

definition fetchDoseData :: "fetch_result \<Rightarrow> page \<Rightarrow> outcome \<times> page" where
  "fetchDoseData r =
     run (bind (console_log [Text ''Running fetchDoseData'']) (\<lambda>_.
          catch (fetchDoseData_try r) (\<lambda>error.
            console_error [Text ''Error fetching dose data:'', Err error])))"

subsection \<open>uploadDicomFolder, loadDatasets, listDatasets, loadSelectedDataset\<close>

text \<open>
  Lines 146 to 156 and lines 226 to 237 are the same statements: the ROI list is
  cleared, then filled with one item per name, or with the error markup.
\<close>

definition append_roi :: "jsval \<Rightarrow> unit js" where
  "append_roi name =
     bind (lift (textContent_of name)) (\<lambda>t.
     modify (\<lambda>st. st\<lparr>roi_list := roi_list st @ [Li t None]\<rparr>))"

definition render_roi_names :: "jsval \<Rightarrow> unit js" where
  "render_roi_names data =
     bind (modify (\<lambda>st. st\<lparr>roi_list := set_innerHTML []\<rparr>)) (\<lambda>_.
     bind (lift (get data ''roi_names'')) (\<lambda>roi_names.
     if truthy roi_names then
       bind (lift (forEach_of roi_names)) (\<lambda>names. forEach append_roi names)
     else
       bind (lift (get data ''error'')) (\<lambda>err.
       bind (lift (to_string err)) (\<lambda>s.
       modify (\<lambda>st. st\<lparr>roi_list := set_innerHTML (''<li>Error: '' @ s @ ''</li>'')\<rparr>)))))"

definition uploadDicomFolder :: "fetch_result \<Rightarrow> page \<Rightarrow> outcome \<times> page" where
  "uploadDicomFolder r =
     run (bind (gets dicom_folder) (\<lambda>files.
          bind (fetch \<lparr>http_method = ''POST'', url = ''/roi/upload_dicom'', headers = [],
                       body = FormData (map (\<lambda>file. (''dicom_folder'', file)) files)\<rparr> r) (\<lambda>res.
          bind (response_json res) (\<lambda>data.
          render_roi_names data))))"

definition append_dataset :: "jsval \<Rightarrow> unit js" where
  "append_dataset name =
     bind (lift (textContent_of name)) (\<lambda>t.
     modify (\<lambda>st. st\<lparr>dataset_list := dataset_list st @ [Li t (Some name)]\<rparr>))"

definition loadDatasets_try :: "fetch_result \<Rightarrow> unit js" where
  "loadDatasets_try r =
     bind (fetch (GET ''/load_data/datasets'') r) (\<lambda>res.
     bind (response_json res) (\<lambda>data.
     bind (modify (\<lambda>st. st\<lparr>dataset_list := set_innerHTML []\<rparr>)) (\<lambda>_.
     bind (lift (get data ''datasets'')) (\<lambda>datasets.
     if truthy datasets then
       bind (lift (forEach_of datasets)) (\<lambda>names. forEach append_dataset names)
     else
       bind (lift (get data ''error'')) (\<lambda>err.
       bind (lift (to_string err)) (\<lambda>s.
       modify (\<lambda>st. st\<lparr>dataset_list :=
         set_innerHTML (''<li>Error: '' @ s @ ''</li>'')\<rparr>)))))))"

definition loadDatasets :: "fetch_result \<Rightarrow> page \<Rightarrow> outcome \<times> page" where
  "loadDatasets r =
     run (bind (modify (\<lambda>st. st\<lparr>dataset_list := set_innerHTML ''Loading...''\<rparr>)) (\<lambda>_.
          catch (loadDatasets_try r) (\<lambda>err.
            bind (console_error [Text ''Failed to load datasets'', Err err]) (\<lambda>_.
            modify (\<lambda>st. st\<lparr>dataset_list := set_innerHTML ''<li>Fetch error</li>''\<rparr>)))))"

definition defaultOption :: option_el where
  "defaultOption = \<lparr>opt_value = [], opt_textContent = ''-- Select a dataset --'',
     opt_disabled = True, opt_selected = True, opt_hidden = True\<rparr>"

definition append_option :: "jsval \<Rightarrow> unit js" where
  "append_option name =
     bind (lift (to_string name)) (\<lambda>v.
     bind (lift (textContent_of name)) (\<lambda>t.
     modify (\<lambda>st. st\<lparr>datasetDropdown := datasetDropdown st @
       [\<lparr>opt_value = v, opt_textContent = t, opt_disabled = False,
         opt_selected = False, opt_hidden = False\<rparr>]\<rparr>)))"

definition listDatasets :: "fetch_result \<Rightarrow> page \<Rightarrow> outcome \<times> page" where
  "listDatasets r =
     run (bind (fetch (GET ''/load_data/datasets'') r) (\<lambda>response.
          bind (response_json response) (\<lambda>data.
          bind (modify (\<lambda>st. st\<lparr>datasetDropdown := []\<rparr>)) (\<lambda>_.
          bind (modify (\<lambda>st. st\<lparr>datasetDropdown := datasetDropdown st @ [defaultOption]\<rparr>)) (\<lambda>_.
          bind (lift (get data ''datasets'')) (\<lambda>datasets.
          if truthy datasets then
            bind (lift (forEach_of datasets)) (\<lambda>names. forEach append_option names)
          else
            bind (lift (get data ''error'')) (\<lambda>err.
            console_error [Text ''Error loading datasets:'', Val err])))))))"

definition loadSelectedDataset :: "fetch_result \<Rightarrow> page \<Rightarrow> outcome \<times> page" where
  "loadSelectedDataset r =
     run (bind (gets (\<lambda>st. select_value (datasetDropdown st))) (\<lambda>dataset.
          if dataset = [] then alert ''Please select a dataset.'' else
          bind (fetch (GET (''/load_data/'' @ dataset)) r) (\<lambda>response.
          bind (response_json response) (\<lambda>data.
          render_roi_names data))))"

subsection \<open>createPatient and loadPatients\<close>

definition append_patient :: "jsval \<Rightarrow> unit js" where
  "append_patient p =
     bind (lift (get p ''name'')) (\<lambda>name.
     bind (lift (to_string name)) (\<lambda>name_s.
     bind (lift (get p ''id'')) (\<lambda>ident.
     bind (lift (to_string ident)) (\<lambda>id_s.
     bind (lift (get p ''birthDate'')) (\<lambda>birthDate.
     bind (lift (to_string birthDate)) (\<lambda>birthDate_s.
     bind (lift (get p ''sex'')) (\<lambda>sex.
     bind (lift (to_string sex)) (\<lambda>sex_s.
     modify (\<lambda>st. st\<lparr>patient_list := patient_list st @
       [Li (name_s @ '' (ID: '' @ id_s @ '', DOB: '' @ birthDate_s @ '', Sex: '' @ sex_s @ '')'')
           None]\<rparr>)))))))))"

definition loadPatients :: "fetch_result \<Rightarrow> page \<Rightarrow> outcome \<times> page" where
  "loadPatients r =
     run (bind (fetch (GET ''/patients/load'') r) (\<lambda>response.
          bind (response_json response) (\<lambda>patients.
          bind (modify (\<lambda>st. st\<lparr>patient_list := set_innerHTML []\<rparr>)) (\<lambda>_.
          bind (lift (forEach_of patients)) (\<lambda>ps.
          forEach append_patient ps)))))"

text \<open>
  Lines 304 to 317 of createPatient: what it does once the body has parsed. The call
  \<^verbatim>\<open>loadPatients()\<close> at line 306 is not awaited: it sends its request and createPatient
  goes on; what loadPatients does with the response happens after createPatient has
  returned, and a rejection of its promise reaches no handler of createPatient.
\<close>

definition createPatient_settle :: "response \<Rightarrow> jsval \<Rightarrow> unit js" where
  "createPatient_settle response data =
     (if ok response then
        bind (alert ''Patient created successfully!'') (\<lambda>_.
        bind (emit (Fetch (GET ''/patients/load''))) (\<lambda>_.
        modify (\<lambda>st. st\<lparr>patient_id := [], patient_first_name := [],
          patient_middle_name := [], patient_last_name := [],
          patient_dob := [], patient_sex := []\<rparr>)))
      else
        bind (lift (get data ''error'')) (\<lambda>err.
        bind (if truthy err then return err else
                bind (lift (get data ''message'')) (\<lambda>msg.
                return (if truthy msg then msg
                        else Str (''Error creating patient. Status: ''
                                  @ dec (status response))))) (\<lambda>errorMsg.
        bind (lift (to_string errorMsg)) (\<lambda>s.
        alert (''Error: '' @ s)))))"

text \<open>The \<^verbatim>\<open>try\<close> block of createPatient, lines 272 to 317.\<close>

definition createPatient_try :: "jsval \<Rightarrow> fetch_result \<Rightarrow> unit js" where
  "createPatient_try payload r =
     bind (fetch \<lparr>http_method = ''POST'', url = ''/patients/create'',
                  headers = [(''Content-Type'', ''application/json'')],
                  body = JsonText payload\<rparr> r) (\<lambda>response.
     if (case content_type response of
           None \<Rightarrow> True
         | Some contentType \<Rightarrow> contentType = [] \<or> \<not> str_includes contentType ''application/json'')
     then
       bind (response_text response) (\<lambda>txt.
       bind (console_error [Text ''Non-JSON response:'', Text txt]) (\<lambda>_.
       alert (''Error: Server returned non-JSON response. Status: '' @ dec (status response))))
     else
       bind (response_text response) (\<lambda>txt.
       if txt = [] \<or> trim txt = [] then
         bind (console_error [Text ''Empty response from server'']) (\<lambda>_.
         alert (''Error: Empty response from server. Status: '' @ dec (status response)))
       else
         handle (JSON_parse response)
           (\<lambda>parseError.
              bind (console_error [Text ''JSON parse error:'', Err parseError,
                                   Text ''Response text:'', Text txt]) (\<lambda>_.
              alert (''Error: Invalid JSON response from server. Status: ''
                     @ dec (status response))))
           (createPatient_settle response)))"

text \<open>Line 267: the name sent to the server.\<close>

definition full_name :: "string \<Rightarrow> string \<Rightarrow> string \<Rightarrow> string" where
  "full_name first_name middle_name last_name =
     trim (replace_ws (first_name @ '' '' @ middle_name @ '' '' @ last_name))"

definition createPatient :: "fetch_result \<Rightarrow> page \<Rightarrow> outcome \<times> page" where
  "createPatient r =
     run (bind (gets (\<lambda>st. trim (patient_id st))) (\<lambda>ident.
          bind (gets (\<lambda>st. trim (patient_first_name st))) (\<lambda>first.
          bind (gets (\<lambda>st. trim (patient_middle_name st))) (\<lambda>middle.
          bind (gets (\<lambda>st. trim (patient_last_name st))) (\<lambda>last.
          bind (gets patient_dob) (\<lambda>birthDate.
          bind (gets patient_sex) (\<lambda>sex.
          if ident = [] then alert ''Error: Patient ID is required.''
          else if first = [] \<or> last = [] then
            alert ''Error: First name and last name are required.''
          else
            catch (createPatient_try
                     (Obj [(''id'', Str ident),
                           (''name'', Str (full_name first middle last)),
                           (''birthDate'', Str birthDate),
                           (''sex'', Str sex)]) r)
              (\<lambda>error.
                 bind (console_error [Text ''Error creating patient:'', Err error]) (\<lambda>_.
                 alert (''Error: Failed to create patient. '' @ message error))))))))))"

subsection \<open>The vocabulary of the specification\<close>

text \<open>
  The words of a string: its maximal runs of characters that are not whitespace. The
  specification's ``name parts joined with single spaces'' is \<open>join '' ''\<close> of them.
\<close>

function words_of :: "string \<Rightarrow> string list" where
  "words_of s =
     (case dropWhile is_space s of
        [] \<Rightarrow> []
      | c # cs \<Rightarrow> takeWhile (\<lambda>d. \<not> is_space d) (c # cs)
                 # words_of (dropWhile (\<lambda>d. \<not> is_space d) (c # cs)))"
  by pat_completeness auto
termination
proof (relation "measure length", goal_cases)
  case 1
  show ?case by simp
next
  case (2 s c cs)
  have "\<not> is_space c"
    using 2 hd_dropWhile [of is_space s] by (metis list.sel(1) list.distinct(1))
  then have "dropWhile (\<lambda>d. \<not> is_space d) (c # cs) = dropWhile (\<lambda>d. \<not> is_space d) cs"
    by simp
  moreover have "length (dropWhile (\<lambda>d. \<not> is_space d) cs) \<le> length cs"
    by (rule length_dropWhile_le)
  moreover have "length (c # cs) \<le> length s"
    using 2 length_dropWhile_le [of is_space s] by simp
  ultimately show ?case by simp
qed

declare words_of.simps [simp del]

text \<open>
  A patient record of the specification's data model, the JSON values that carry one,
  and the line the specification gives for it.
\<close>

record patient_record =
  pr_id :: string
  pr_name :: string
  pr_birthDate :: string
  pr_sex :: string

fun is_patient :: "jsval \<Rightarrow> patient_record \<Rightarrow> bool" where
  "is_patient (Obj ps) p =
     (map_of ps ''id'' = Some (Str (pr_id p)) \<and>
      map_of ps ''name'' = Some (Str (pr_name p)) \<and>
      map_of ps ''birthDate'' = Some (Str (pr_birthDate p)) \<and>
      map_of ps ''sex'' = Some (Str (pr_sex p)))"
| "is_patient v p = False"

definition patient_line :: "patient_record \<Rightarrow> string" where
  "patient_line p =
     pr_name p @ '' (ID: '' @ pr_id p @ '', DOB: '' @ pr_birthDate p
       @ '', Sex: '' @ pr_sex p @ '')''"

subsection \<open>Pages, responses and payloads to run the script on\<close>

definition blank_page :: page where
  "blank_page = \<lparr>dicom_folder = [], roi_list = [], dataset_list = [], datasetDropdown = [],
     patient_list = [], patient_id = [], patient_first_name = [], patient_middle_name = [],
     patient_last_name = [], patient_dob = [], patient_sex = [],
     plotly_ct_dose = None, plotly_dvh = None, plotly_ct_overlay = None, effects = []\<rparr>"

text \<open>
  A page in use: two files chosen, two ROI names on screen, the dataset P001 selected
  in the dropdown that listDatasets built, one patient listed, the form filled in.
\<close>

definition example_page :: page where
  "example_page = \<lparr>dicom_folder = [''CT_001.dcm'', ''RS_001.dcm''],
     roi_list = [Li ''GTV'' None, Li ''Heart'' None],
     dataset_list = [],
     datasetDropdown = [defaultOption\<lparr>opt_selected := False\<rparr>,
       \<lparr>opt_value = ''P001'', opt_textContent = ''P001'', opt_disabled = False,
        opt_selected = True, opt_hidden = False\<rparr>],
     patient_list = [Li ''John Roe (ID: 7, DOB: 1990-05-05, Sex: M)'' None],
     patient_id = ''1'', patient_first_name = '' Jane '', patient_middle_name = [],
     patient_last_name = ''Doe'', patient_dob = ''2000-01-01'', patient_sex = ''F'',
     plotly_ct_dose = None, plotly_dvh = None, plotly_ct_overlay = None, effects = []\<rparr>"

definition json_response :: "nat \<Rightarrow> string \<Rightarrow> jsval \<Rightarrow> response" where
  "json_response code txt v =
     \<lparr>status = code, content_type = Some ''application/json'', text_body = txt,
      json_body = Inr v\<rparr>"

text \<open>A gateway's HTML error page: no JSON text.\<close>

definition html_response :: response where
  "html_response =
     \<lparr>status = 502, content_type = Some ''text/html'',
      text_body = ''<html>Bad Gateway</html>'',
      json_body = Inl ''Unexpected token < in JSON at position 0''\<rparr>"

definition dose_full :: jsval where
  "dose_full = Obj [
     (''ct_slice'', Arr [Arr [Num ''-1000'', Num ''0'']]),
     (''mask_slice'', Arr [Arr [Num ''0'', Num ''1'']]),
     (''dose_slice'', Arr [Arr [Num ''2'', Num ''3'']]),
     (''dvh'', Obj [(''dose_values'', Arr [Num ''0'', Num ''1'', Num ''2'']),
                    (''volume_percentages'', Arr [Num ''100'', Num ''80'', Num ''20''])])]"

definition dose_full_text :: string where
  \<open>dose_full_text = ''{"ct_slice":[[-1000,0]],"mask_slice":[[0,1]],"dose_slice":[[2,3]],"dvh":{"dose_values":[0,1,2],"volume_percentages":[100,80,20]}}''\<close>

definition dose_without_ct :: jsval where
  "dose_without_ct = Obj [
     (''mask_slice'', Arr [Arr [Num ''0'', Num ''1'']]),
     (''dose_slice'', Arr [Arr [Num ''2'', Num ''3'']]),
     (''dvh'', Obj [(''dose_values'', Arr [Num ''0'', Num ''1'', Num ''2'']),
                    (''volume_percentages'', Arr [Num ''100'', Num ''80'', Num ''20''])])]"

definition dose_without_ct_text :: string where
  \<open>dose_without_ct_text = ''{"mask_slice":[[0,1]],"dose_slice":[[2,3]],"dvh":{"dose_values":[0,1,2],"volume_percentages":[100,80,20]}}''\<close>

definition dose_without_dvh :: jsval where
  "dose_without_dvh = Obj [
     (''ct_slice'', Arr [Arr [Num ''-1000'', Num ''0'']]),
     (''mask_slice'', Arr [Arr [Num ''0'', Num ''1'']]),
     (''dose_slice'', Arr [Arr [Num ''2'', Num ''3'']])]"

definition dose_without_dvh_text :: string where
  \<open>dose_without_dvh_text = ''{"ct_slice":[[-1000,0]],"mask_slice":[[0,1]],"dose_slice":[[2,3]]}''\<close>

definition jane_listing :: jsval where
  "jane_listing = Arr [Obj [(''id'', Str ''1''), (''name'', Str ''Jane Doe''),
     (''birthDate'', Str ''2000-01-01''), (''sex'', Str ''F'')]]"

definition jane_listing_text :: string where
  \<open>jane_listing_text = ''[{"id":"1","name":"Jane Doe","birthDate":"2000-01-01","sex":"F"}]''\<close>

definition roi_names_null :: jsval where
  "roi_names_null = Obj [(''roi_names'', Null)]"

definition roi_names_null_text :: string where
  \<open>roi_names_null_text = ''{"roi_names":null}''\<close>

definition roi_names_string :: jsval where
  "roi_names_string = Obj [(''roi_names'', Str ''GTV'')]"

definition roi_names_string_text :: string where
  \<open>roi_names_string_text = ''{"roi_names":"GTV"}''\<close>

definition roi_names_lookalike :: jsval where
  "roi_names_lookalike = Obj [(''roi_names'', Arr [Str ''Error: undefined''])]"

definition roi_names_lookalike_text :: string where
  \<open>roi_names_lookalike_text = ''{"roi_names":["Error: undefined"]}''\<close>

definition roi_names_two :: jsval where
  "roi_names_two = Obj [(''roi_names'', Arr [Str ''GTV'', Str ''Heart''])]"

definition roi_names_two_text :: string where
  \<open>roi_names_two_text = ''{"roi_names":["GTV","Heart"]}''\<close>

definition server_error :: jsval where
  "server_error = Obj [(''error'', Str ''No RTSTRUCT found'')]"

definition server_error_text :: string where
  \<open>server_error_text = ''{"error":"No RTSTRUCT found"}''\<close>

definition roi_names_empty :: jsval where
  "roi_names_empty = Obj [(''roi_names'', Arr [])]"

definition roi_names_empty_text :: string where
  \<open>roi_names_empty_text = ''{"roi_names":[]}''\<close>

section \<open>Properties\<close>

lemmas js_defs = run_def bind_def catch_def handle_def gets_def lift_def return_def throw_def
  modify_def emit_def alert_def console_log_def console_error_def fetch_def response_json_def
  response_text_def JSON_parse_def

subsection \<open>Whitespace in the patient payload\<close>

lemma replace_ws_nonspace_prefix:
  "\<forall>c\<in>set w. \<not> is_space c \<Longrightarrow> replace_ws (w @ r) = w @ replace_ws r"
  by (induction w) auto

lemma rtrim_append:
  assumes "a \<noteq> []" "\<not> is_space (last a)"
  shows "rev (dropWhile is_space (rev (a @ b))) = a @ rev (dropWhile is_space (rev b))"
proof -
  have ra: "dropWhile is_space (rev a) = rev a"
    using assms by (cases "rev a") (auto simp: hd_rev [symmetric])
  show ?thesis
    by (simp add: dropWhile_append ra dropWhile_eq_Nil_conv)
qed

lemma words_of_all_space: "dropWhile is_space s = [] \<Longrightarrow> words_of s = []"
  by (subst words_of.simps) (simp del: dropWhile_eq_Nil_conv)

lemma replace_ws_ltrim:
  "replace_ws s =
     (if s \<noteq> [] \<and> is_space (hd s) then '' '' else []) @ replace_ws (dropWhile is_space s)"
  by (cases s) auto

lemma take_drop_nonspace:
  "replace_ws t =
     takeWhile (\<lambda>d. \<not> is_space d) t @ replace_ws (dropWhile (\<lambda>d. \<not> is_space d) t)"
proof -
  have "replace_ws (takeWhile (\<lambda>d. \<not> is_space d) t @ dropWhile (\<lambda>d. \<not> is_space d) t) =
        takeWhile (\<lambda>d. \<not> is_space d) t @ replace_ws (dropWhile (\<lambda>d. \<not> is_space d) t)"
    by (rule replace_ws_nonspace_prefix) (auto dest: set_takeWhileD)
  then show ?thesis by (simp only: takeWhile_dropWhile_id)
qed

lemma replace_ws_all_space:
  assumes "dropWhile is_space s = []"
  shows "rev (dropWhile is_space (rev (replace_ws s))) = []"
proof (cases s)
  case Nil
  then show ?thesis by simp
next
  case (Cons c cs)
  with assms have c: "is_space c" and cs: "dropWhile is_space cs = []"
    by (simp_all split: if_splits)
  have sp: "is_space CHR '' ''" by (simp add: is_space_def)
  from Cons c cs have "replace_ws s = '' ''" by (simp del: dropWhile_eq_Nil_conv)
  with sp show ?thesis by simp
qed

lemma ltrim_hd: "dropWhile is_space s = [] \<or> \<not> is_space (hd (dropWhile is_space s))"
  using hd_dropWhile [of is_space s] by blast

lemma rtrim_replace_ws:
  "rev (dropWhile is_space (rev (replace_ws s))) =
     (case words_of s of
        [] \<Rightarrow> []
      | w # ws \<Rightarrow> (if s \<noteq> [] \<and> is_space (hd s) then '' '' else []) @ join '' '' (w # ws))"
proof (induction s rule: words_of.induct)
  case (1 s)
  show ?case
  proof (cases "dropWhile is_space s")
    case Nil
    show ?thesis
      using words_of_all_space [OF Nil] replace_ws_all_space [OF Nil] by (simp only: list.case)
  next
    case (Cons c cs)
    let ?t = "c # cs"
    let ?w = "takeWhile (\<lambda>d. \<not> is_space d) ?t"
    let ?r = "dropWhile (\<lambda>d. \<not> is_space d) ?t"
    let ?pre = "(if s \<noteq> [] \<and> is_space (hd s) then '' '' else [])"
    have c: "\<not> is_space c" using Cons ltrim_hd [of s] by simp
    have w1: "?w \<noteq> []" using c by simp
    have "last ?w \<in> set ?w" using w1 by (rule last_in_set)
    then have w2: "\<not> is_space (last ?w)" by (blast dest: set_takeWhileD)
    have ws: "words_of s = ?w # words_of ?r" using Cons by (subst words_of.simps) simp
    have IH: "rev (dropWhile is_space (rev (replace_ws ?r))) =
       (case words_of ?r of [] \<Rightarrow> []
        | w # ws \<Rightarrow> (if ?r \<noteq> [] \<and> is_space (hd ?r) then '' '' else []) @ join '' '' (w # ws))"
      using "1.IH" [OF Cons] .
    have r: "words_of ?r \<noteq> [] \<Longrightarrow> ?r \<noteq> [] \<and> is_space (hd ?r)"
      by (metis dropWhile_eq_self_iff hd_dropWhile words_of_all_space)
    have "replace_ws s = ?pre @ replace_ws ?t"
      using replace_ws_ltrim [of s] unfolding Cons .
    also have "replace_ws ?t = ?w @ replace_ws ?r"
      by (rule take_drop_nonspace)
    finally have split: "replace_ws s = (?pre @ ?w) @ replace_ws ?r"
      by (simp only: append_assoc)
    have pw: "?pre @ ?w \<noteq> []" "\<not> is_space (last (?pre @ ?w))"
      using w1 w2 by (simp_all only: append_is_Nil_conv last_appendR simp_thms)
    have "rev (dropWhile is_space (rev (replace_ws s))) =
        (?pre @ ?w) @ rev (dropWhile is_space (rev (replace_ws ?r)))"
      unfolding split by (rule rtrim_append [OF pw])
    also have "rev (dropWhile is_space (rev (replace_ws ?r))) =
        (case words_of ?r of [] \<Rightarrow> [] | w # ws \<Rightarrow> '' '' @ join '' '' (w # ws))"
      unfolding IH using r
      by (cases "words_of ?r") (simp_all only: list.case if_True list.distinct simp_thms)
    also have "(?pre @ ?w) @
          (case words_of ?r of [] \<Rightarrow> [] | w # ws \<Rightarrow> '' '' @ join '' '' (w # ws)) =
        ?pre @ join '' '' (?w # words_of ?r)"
      by (cases "words_of ?r") (simp_all only: list.case join.simps append_assoc append_Nil2)
    finally show ?thesis unfolding ws by (simp only: list.case)
  qed
qed

lemma ltrim_replace_ws_fixed:
  "t = [] \<or> \<not> is_space (hd t) \<Longrightarrow> dropWhile is_space (replace_ws t) = replace_ws t"
  by (cases t) auto

lemma ltrim_replace_ws:
  "dropWhile is_space (replace_ws s) = replace_ws (dropWhile is_space s)"
proof (cases s)
  case Nil
  then show ?thesis by simp
next
  case (Cons c cs)
  show ?thesis
  proof (cases "is_space c")
    case True
    have sp: "is_space CHR '' ''" by (simp add: is_space_def)
    from Cons True have "dropWhile is_space (replace_ws s) =
        dropWhile is_space (replace_ws (dropWhile is_space cs))"
      using sp by simp
    also have "\<dots> = replace_ws (dropWhile is_space cs)"
      by (rule ltrim_replace_ws_fixed) (rule ltrim_hd)
    finally show ?thesis using Cons True by simp
  next
    case False
    with Cons show ?thesis by simp
  qed
qed

lemma words_of_ltrim: "words_of (dropWhile is_space s) = words_of s"
  by (subst (1 2) words_of.simps) (simp only: dropWhile_idem)

lemma trim_replace_ws: "trim (replace_ws s) = join '' '' (words_of s)"
proof -
  let ?t = "dropWhile is_space s"
  have "trim (replace_ws s) = rev (dropWhile is_space (rev (replace_ws ?t)))"
    by (simp only: trim_def ltrim_replace_ws)
  also have "\<dots> = (case words_of ?t of [] \<Rightarrow> []
      | w # ws \<Rightarrow> (if ?t \<noteq> [] \<and> is_space (hd ?t) then '' '' else []) @ join '' '' (w # ws))"
    by (rule rtrim_replace_ws)
  also have "\<dots> = join '' '' (words_of ?t)"
    using ltrim_hd [of s] by (cases "words_of ?t") auto
  finally show ?thesis by (simp only: words_of_ltrim)
qed

lemma words_of_words:
  "w \<in> set (words_of s) \<Longrightarrow> w \<noteq> [] \<and> (\<forall>c\<in>set w. \<not> is_space c)"
proof (induction s arbitrary: w rule: words_of.induct)
  case (1 s)
  show ?case
  proof (cases "dropWhile is_space s")
    case Nil
    from words_of_all_space [OF Nil] "1.prems" show ?thesis by simp
  next
    case (Cons c cs)
    have c: "\<not> is_space c" using Cons ltrim_hd [of s] by simp
    have ws: "words_of s = takeWhile (\<lambda>d. \<not> is_space d) (c # cs)
        # words_of (dropWhile (\<lambda>d. \<not> is_space d) (c # cs))"
      using Cons by (subst words_of.simps) simp
    from "1.prems" ws consider "w = takeWhile (\<lambda>d. \<not> is_space d) (c # cs)"
      | "w \<in> set (words_of (dropWhile (\<lambda>d. \<not> is_space d) (c # cs)))" by auto
    then show ?thesis
    proof cases
      case 1
      with c show ?thesis by (auto dest: set_takeWhileD)
    next
      case 2
      from "1.IH" [OF Cons 2] show ?thesis .
    qed
  qed
qed

lemma trim_idem: "trim (trim s) = trim s"
  unfolding trim_def
  by (metis (lifting) ext dropWhile_eq_Nil_conv dropWhile_eq_self_iff
    dropWhile_last hd_dropWhile last_rev rev_is_Nil_conv rev_swap)

lemma createPatient_settle_grows:
  "\<exists>es. effects (snd (createPatient_settle resp data st)) = effects st @ es"
  by (simp add: createPatient_settle_def js_defs case_prod_beta split: sum.splits)

lemma createPatient_settle_after:
  "\<exists>es. effects (snd (createPatient_settle resp data (st\<lparr>effects := a @ b # bs\<rparr>))) =
     a @ b # es"
proof -
  obtain es where
    "effects (snd (createPatient_settle resp data (st\<lparr>effects := a @ b # bs\<rparr>))) =
      effects (st\<lparr>effects := a @ b # bs\<rparr>) @ es"
    using createPatient_settle_grows by blast
  then show ?thesis by simp
qed

lemma createPatient_try_sends:
  "\<exists>es. effects (snd (createPatient_try payload r st)) =
     effects st @ Fetch \<lparr>http_method = ''POST'', url = ''/patients/create'',
                  headers = [(''Content-Type'', ''application/json'')],
                  body = JsonText payload\<rparr> # es"
proof (cases r)
  case (Failed m)
  then show ?thesis by (simp add: createPatient_try_def js_defs)
next
  case (Responded resp)
  then show ?thesis
    by (simp add: createPatient_try_def js_defs case_prod_beta createPatient_settle_after
        split: sum.splits option.splits)
qed

lemma createPatient_sends:
  assumes "trim (patient_id st) \<noteq> []" "trim (patient_first_name st) \<noteq> []"
    "trim (patient_last_name st) \<noteq> []"
  shows "\<exists>es. effects (snd (createPatient r st)) =
     effects st @ Fetch \<lparr>http_method = ''POST'', url = ''/patients/create'',
        headers = [(''Content-Type'', ''application/json'')],
        body = JsonText (Obj [
          (''id'', Str (trim (patient_id st))),
          (''name'', Str (full_name (trim (patient_first_name st))
             (trim (patient_middle_name st)) (trim (patient_last_name st)))),
          (''birthDate'', Str (patient_dob st)),
          (''sex'', Str (patient_sex st))])\<rparr> # es"
proof -
  let ?payload = "Obj [
          (''id'', Str (trim (patient_id st))),
          (''name'', Str (full_name (trim (patient_first_name st))
             (trim (patient_middle_name st)) (trim (patient_last_name st)))),
          (''birthDate'', Str (patient_dob st)),
          (''sex'', Str (patient_sex st))]"
  obtain es where es: "effects (snd (createPatient_try ?payload r st)) =
     effects st @ Fetch \<lparr>http_method = ''POST'', url = ''/patients/create'',
                  headers = [(''Content-Type'', ''application/json'')],
                  body = JsonText ?payload\<rparr> # es"
    using createPatient_try_sends by blast
  show ?thesis
    using assms es
    by (simp add: createPatient_def gets_def bind_def catch_def run_def
        console_error_def alert_def emit_def modify_def case_prod_beta split: sum.splits)
qed

text \<open>
  Claim C5. Trimming a trimmed field value changes nothing, and the first-name inputs
  \<open>''Jane''\<close>, \<open>'' Jane ''\<close> and \<open>''Jane  ''\<close> all trim to \<open>''Jane''\<close>. The name built
  from first name Jane, an empty middle name and last name Doe is exactly
  \<open>''Jane Doe''\<close>. For every input the name is the words of the three parts (non-empty
  and free of whitespace) joined by single spaces. When the required fields are filled,
  the payload createPatient sends carries the trimmed id and the name so built from the
  trimmed name fields.
\<close>

theorem shapePatientPayload_whitespace:
  "trim (trim s) = trim s \<and>
   trim ''Jane'' = ''Jane'' \<and> trim '' Jane '' = ''Jane'' \<and> trim ''Jane  '' = ''Jane'' \<and>
   full_name ''Jane'' [] ''Doe'' = ''Jane Doe'' \<and>
   full_name first_name middle_name last_name =
     join '' '' (words_of (first_name @ '' '' @ middle_name @ '' '' @ last_name)) \<and>
   (\<forall>w\<in>set (words_of (first_name @ '' '' @ middle_name @ '' '' @ last_name)).
      w \<noteq> [] \<and> (\<forall>c\<in>set w. \<not> is_space c)) \<and>
   (trim (patient_id st) \<noteq> [] \<and> trim (patient_first_name st) \<noteq> [] \<and>
    trim (patient_last_name st) \<noteq> [] \<longrightarrow>
    (\<exists>es. effects (snd (createPatient r st)) =
       effects st @ Fetch \<lparr>http_method = ''POST'', url = ''/patients/create'',
         headers = [(''Content-Type'', ''application/json'')],
         body = JsonText (Obj [
           (''id'', Str (trim (patient_id st))),
           (''name'', Str (full_name (trim (patient_first_name st))
              (trim (patient_middle_name st)) (trim (patient_last_name st)))),
           (''birthDate'', Str (patient_dob st)),
           (''sex'', Str (patient_sex st))])\<rparr> # es))"
proof -
  have "trim ''Jane'' = ''Jane''" "trim '' Jane '' = ''Jane''" "trim ''Jane  '' = ''Jane''"
    by (simp_all add: trim_def is_space_def)
  moreover have "full_name ''Jane'' [] ''Doe'' = ''Jane Doe''"
    by (simp add: full_name_def trim_def is_space_def)
  moreover have "full_name first_name middle_name last_name =
     join '' '' (words_of (first_name @ '' '' @ middle_name @ '' '' @ last_name))"
    unfolding full_name_def by (rule trim_replace_ws)
  ultimately show ?thesis using trim_idem words_of_words createPatient_sends by blast
qed

theorem shapePatientPayload_whitespace_witness:
  "words_of (''Mary'' @ '' '' @ ''Ann  Lee'' @ '' '' @ ''Jones'') =
     [''Mary'', ''Ann'', ''Lee'', ''Jones''] \<and>
   full_name ''Mary'' ''Ann  Lee'' ''Jones'' = ''Mary Ann Lee Jones'' \<and>
   trim (trim ''  Mary '') = ''Mary'' \<and>
   trim (patient_id example_page) \<noteq> [] \<and> trim (patient_first_name example_page) \<noteq> [] \<and>
   trim (patient_last_name example_page) \<noteq> [] \<and>
   hd (effects (snd (createPatient (Failed ''Failed to fetch'') example_page))) =
     Fetch \<lparr>http_method = ''POST'', url = ''/patients/create'',
       headers = [(''Content-Type'', ''application/json'')],
       body = JsonText (Obj [(''id'', Str ''1''), (''name'', Str ''Jane Doe''),
         (''birthDate'', Str ''2000-01-01''), (''sex'', Str ''F'')])\<rparr>"
proof -
  have w: "words_of (''Mary'' @ '' '' @ ''Ann  Lee'' @ '' '' @ ''Jones'') =
      [''Mary'', ''Ann'', ''Lee'', ''Jones'']"
    by (simp add: words_of.simps is_space_def)
  have t: "trim ''  Mary '' = ''Mary''" by (simp add: trim_def is_space_def)
  have p: "trim (patient_id example_page) = ''1''"
    "trim (patient_first_name example_page) = ''Jane''"
    "trim (patient_middle_name example_page) = []"
    "trim (patient_last_name example_page) = ''Doe''"
    "patient_dob example_page = ''2000-01-01''" "patient_sex example_page = ''F''"
    "effects example_page = []"
    by (simp_all add: example_page_def trim_def is_space_def)
  from shapePatientPayload_whitespace [of "''  Mary ''" "''Mary''" "''Ann  Lee''" "''Jones''"
      example_page "Failed ''Failed to fetch''"]
  show ?thesis unfolding w t p by auto
qed

subsection \<open>Client-side checks before any request\<close>

text \<open>
  Claim C6. When the id, the first name or the last name is blank after trimming,
  createPatient ends with an alert that names the missing field and sends no request:
  whatever the network would have answered, the page is the one it started on with that
  one alert added to what it did.
\<close>

theorem createPatient_blank_required_field:
  "trim (patient_id st) = [] \<or> trim (patient_first_name st) = []
     \<or> trim (patient_last_name st) = [] \<Longrightarrow>
   createPatient r st =
     (Fulfilled, st\<lparr>effects := effects st @
        [Alert (if trim (patient_id st) = [] then ''Error: Patient ID is required.''
                else ''Error: First name and last name are required.'')]\<rparr>)"
  by (auto simp add: createPatient_def js_defs)

theorem createPatient_blank_required_field_witness:
  "trim (patient_id (example_page\<lparr>patient_id := ''   ''\<rparr>)) = [] \<and>
   createPatient (Responded (json_response 200 ''{}'' (Obj [])))
       (example_page\<lparr>patient_id := ''   ''\<rparr>) =
     (Fulfilled, example_page\<lparr>patient_id := ''   '',
        effects := [Alert ''Error: Patient ID is required.'']\<rparr>) \<and>
   trim (patient_last_name (example_page\<lparr>patient_last_name := []\<rparr>)) = [] \<and>
   createPatient (Failed ''Failed to fetch'') (example_page\<lparr>patient_last_name := []\<rparr>) =
     (Fulfilled, example_page\<lparr>patient_last_name := [],
        effects := [Alert ''Error: First name and last name are required.'']\<rparr>)"
proof -
  have a: "trim (patient_id (example_page\<lparr>patient_id := ''   ''\<rparr>)) = []"
    by (simp add: example_page_def trim_def is_space_def)
  have b: "trim (patient_last_name (example_page\<lparr>patient_last_name := []\<rparr>)) = []"
    by (simp add: example_page_def trim_def)
  have c: "trim (patient_id (example_page\<lparr>patient_last_name := []\<rparr>)) \<noteq> []"
    by (simp add: example_page_def trim_def is_space_def)
  from a b c
    createPatient_blank_required_field [of "example_page\<lparr>patient_id := ''   ''\<rparr>"
      "Responded (json_response 200 ''{}'' (Obj []))"]
    createPatient_blank_required_field [of "example_page\<lparr>patient_last_name := []\<rparr>"
      "Failed ''Failed to fetch''"]
  show ?thesis by (simp add: example_page_def)
qed

text \<open>
  Claim C7. When the dropdown has no dataset selected (its value is empty),
  loadSelectedDataset sends no request and tells the user with an alert: the page is
  the one it started on with that one alert added.
\<close>

theorem loadSelectedDataset_no_selection:
  "select_value (datasetDropdown st) = [] \<Longrightarrow>
   loadSelectedDataset r st =
     (Fulfilled, st\<lparr>effects := effects st @ [Alert ''Please select a dataset.'']\<rparr>)"
  by (simp add: loadSelectedDataset_def js_defs)

theorem loadSelectedDataset_no_selection_witness:
  "select_value (datasetDropdown (example_page\<lparr>datasetDropdown := [defaultOption]\<rparr>)) = [] \<and>
   loadSelectedDataset (Responded (json_response 200 roi_names_empty_text roi_names_empty))
       (example_page\<lparr>datasetDropdown := [defaultOption]\<rparr>) =
     (Fulfilled, example_page\<lparr>datasetDropdown := [defaultOption],
        effects := [Alert ''Please select a dataset.'']\<rparr>)"
proof -
  have a: "select_value (datasetDropdown (example_page\<lparr>datasetDropdown := [defaultOption]\<rparr>)) = []"
    by (simp add: select_value_def defaultOption_def)
  from a loadSelectedDataset_no_selection [OF a,
      of "Responded (json_response 200 roi_names_empty_text roi_names_empty)"]
  show ?thesis by (simp add: example_page_def)
qed

subsection \<open>The ROI list on a failed request or parse\<close>

text \<open>
  Claim C10. In uploadDicomFolder and loadSelectedDataset the ROI list is cleared only
  once the body has parsed: when the request fails, or the body is no JSON text, the
  list holds what it held before.
\<close>

theorem roi_list_kept_on_failure:
  "roi_list (snd (uploadDicomFolder (Failed m) st)) = roi_list st \<and>
   roi_list (snd (loadSelectedDataset (Failed m) st)) = roi_list st \<and>
   (json_body resp = Inl m \<longrightarrow>
      roi_list (snd (uploadDicomFolder (Responded resp) st)) = roi_list st \<and>
      roi_list (snd (loadSelectedDataset (Responded resp) st)) = roi_list st)"
  by (simp add: uploadDicomFolder_def loadSelectedDataset_def js_defs)

theorem roi_list_kept_on_failure_witness:
  "json_body html_response = Inl ''Unexpected token < in JSON at position 0'' \<and>
   roi_list (snd (uploadDicomFolder (Responded html_response) example_page)) =
     [Li ''GTV'' None, Li ''Heart'' None] \<and>
   roi_list (snd (loadSelectedDataset (Responded html_response) example_page)) =
     [Li ''GTV'' None, Li ''Heart'' None] \<and>
   roi_list (snd (uploadDicomFolder (Failed ''Unexpected token < in JSON at position 0'')
     example_page)) = [Li ''GTV'' None, Li ''Heart'' None]"
proof -
  have a: "json_body html_response = Inl ''Unexpected token < in JSON at position 0''"
    by (simp add: html_response_def)
  have b: "roi_list example_page = [Li ''GTV'' None, Li ''Heart'' None]"
    by (simp add: example_page_def)
  from a b roi_list_kept_on_failure [of "''Unexpected token < in JSON at position 0''"
      example_page html_response]
  show ?thesis by simp
qed

subsection \<open>The patient list\<close>

lemma append_patient_record:
  "is_patient v p \<Longrightarrow>
   append_patient v st =
     (Inr (), st\<lparr>patient_list := patient_list st @ [Li (patient_line p) None]\<rparr>)"
  by (cases v) (simp_all add: append_patient_def patient_line_def bind_def lift_def modify_def)

lemma forEach_append_patient:
  "list_all2 is_patient vs ps \<Longrightarrow>
   forEach append_patient vs st =
     (Inr (), st\<lparr>patient_list := patient_list st @ map (\<lambda>p. Li (patient_line p) None) ps\<rparr>)"
proof (induction vs ps arbitrary: st rule: list_all2_induct)
  case Nil
  show ?case by simp
next
  case (Cons v vs p ps)
  then show ?case by (simp add: append_patient_record)
qed

text \<open>
  Claim C8. For every patient listing payload (a JSON array whose elements are objects
  with string fields id, name, birthDate and sex), loadPatients replaces whatever the
  patient list held by one entry per record, in the order of the payload, each reading
  \<open>name (ID: id, DOB: birthDate, Sex: sex)\<close>.
\<close>

theorem loadPatients_renders_listing:
  "json_body resp = Inr (Arr vs) \<Longrightarrow> list_all2 is_patient vs ps \<Longrightarrow>
   loadPatients (Responded resp) st =
     (Fulfilled, st\<lparr>patient_list := map (\<lambda>p. Li (patient_line p) None) ps,
        effects := effects st @ [Fetch (GET ''/patients/load''), ReadJson]\<rparr>)"
  by (simp add: loadPatients_def js_defs forEach_append_patient set_innerHTML_def)

theorem loadPatients_renders_listing_witness:
  "json_body (json_response 200 jane_listing_text jane_listing) =
     Inr (Arr [Obj [(''id'', Str ''1''), (''name'', Str ''Jane Doe''),
                    (''birthDate'', Str ''2000-01-01''), (''sex'', Str ''F'')]]) \<and>
   list_all2 is_patient
     [Obj [(''id'', Str ''1''), (''name'', Str ''Jane Doe''),
           (''birthDate'', Str ''2000-01-01''), (''sex'', Str ''F'')]]
     [\<lparr>pr_id = ''1'', pr_name = ''Jane Doe'', pr_birthDate = ''2000-01-01'', pr_sex = ''F''\<rparr>] \<and>
   loadPatients (Responded (json_response 200 jane_listing_text jane_listing)) example_page =
     (Fulfilled,
      example_page\<lparr>patient_list := [Li ''Jane Doe (ID: 1, DOB: 2000-01-01, Sex: F)'' None],
        effects := [Fetch (GET ''/patients/load''), ReadJson]\<rparr>)"
proof -
  have a: "json_body (json_response 200 jane_listing_text jane_listing) =
     Inr (Arr [Obj [(''id'', Str ''1''), (''name'', Str ''Jane Doe''),
                    (''birthDate'', Str ''2000-01-01''), (''sex'', Str ''F'')]])"
    by (simp add: json_response_def jane_listing_def)
  have b: "list_all2 is_patient
     [Obj [(''id'', Str ''1''), (''name'', Str ''Jane Doe''),
           (''birthDate'', Str ''2000-01-01''), (''sex'', Str ''F'')]]
     [\<lparr>pr_id = ''1'', pr_name = ''Jane Doe'', pr_birthDate = ''2000-01-01'', pr_sex = ''F''\<rparr>]"
    by simp
  from a b loadPatients_renders_listing [OF a b, of example_page]
  show ?thesis by (simp add: patient_line_def example_page_def)
qed

subsection \<open>The error item of a name list\<close>

lemma error_markup:
  "set_innerHTML (''<li>Error: '' @ s @ ''</li>'') =
     (if plain_text s then [Li (''Error: '' @ s) None]
      else [Markup (''<li>Error: '' @ s @ ''</li>'')])"
  by (simp add: set_innerHTML_def plain_text_def)

lemma forEach_append_roi_texts:
  "map textContent_of names = map Inr ts \<Longrightarrow>
   forEach append_roi names st =
     (Inr (), st\<lparr>roi_list := roi_list st @ map (\<lambda>t. Li t None) ts\<rparr>)"
proof (induction names arbitrary: ts st)
  case Nil
  then show ?case by simp
next
  case (Cons x xs)
  then obtain t ts' where ts: "ts = t # ts'" and x: "textContent_of x = Inr t"
    and xs: "map textContent_of xs = map Inr ts'"
    by (cases ts) auto
  from Cons.IH [OF xs] x ts show ?case
    by (simp add: append_roi_def bind_def lift_def modify_def)
qed

lemma render_roi_names_list:
  "roi_list (snd (render_roi_names data st)) =
     (case get data ''roi_names'' of
        Inl e \<Rightarrow> []
      | Inr v \<Rightarrow>
          if truthy v then
            (case forEach_of v of
               Inl e \<Rightarrow> []
             | Inr names \<Rightarrow> roi_list (snd (forEach append_roi names (st\<lparr>roi_list := []\<rparr>))))
          else
            (case get data ''error'' of
               Inl e \<Rightarrow> []
             | Inr err \<Rightarrow>
                 (case to_string err of
                    Inl e \<Rightarrow> []
                  | Inr s \<Rightarrow> set_innerHTML (''<li>Error: '' @ s @ ''</li>''))))"
proof -
  have e: "set_innerHTML [] = []" by (simp add: set_innerHTML_def)
  show ?thesis
    by (simp add: render_roi_names_def bind_def lift_def modify_def e split: sum.splits)
qed

lemma forEach_of_Inl: "truthy v \<Longrightarrow> \<forall>xs. v \<noteq> Arr xs \<Longrightarrow> \<exists>e. forEach_of v = Inl e"
  by (cases v) auto

lemma render_roi_names_shape:
  assumes L: "L = roi_list (snd (render_roi_names data st))"
  shows
  "(get data ''roi_names'' = Inr v \<and> \<not> truthy v \<and> get data ''error'' = Inr e \<and>
    to_string e = Inr s \<longrightarrow>
      L = set_innerHTML (''<li>Error: '' @ s @ ''</li>'') \<and>
      (plain_text s \<longrightarrow>
         L = [Li (''Error: '' @ s) None])) \<and>
   (get data ''roi_names'' = Inr (Arr names) \<and> map textContent_of names = map Inr ts \<longrightarrow>
      L = map (\<lambda>t. Li t None) ts) \<and>
   (data = Obj [] \<longrightarrow>
      L = [Li ''Error: undefined'' None]) \<and>
   (get data ''roi_names'' = Inr (Arr []) \<longrightarrow> L = []) \<and>
   (get data ''roi_names'' = Inr w \<and> truthy w \<and> (\<forall>xs. w \<noteq> Arr xs) \<longrightarrow>
      L = [])"
  unfolding L
proof (intro conjI impI)
  assume a: "get data ''roi_names'' = Inr v \<and> \<not> truthy v \<and> get data ''error'' = Inr e \<and>
    to_string e = Inr s"
  then show l: "roi_list (snd (render_roi_names data st)) =
      set_innerHTML (''<li>Error: '' @ s @ ''</li>'')"
    by (simp only: render_roi_names_list sum.case if_False)
  assume "plain_text s"
  with l show "roi_list (snd (render_roi_names data st)) = [Li (''Error: '' @ s) None]"
    by (simp only: error_markup if_True)
next
  assume a: "get data ''roi_names'' = Inr (Arr names) \<and> map textContent_of names = map Inr ts"
  then have "forEach append_roi names (st\<lparr>roi_list := []\<rparr>) =
      (Inr (), st\<lparr>roi_list := [], roi_list := [] @ map (\<lambda>t. Li t None) ts\<rparr>)"
    using forEach_append_roi_texts [of names ts "st\<lparr>roi_list := []\<rparr>"] by simp
  with a show "roi_list (snd (render_roi_names data st)) = map (\<lambda>t. Li t None) ts"
    by (simp add: render_roi_names_list)
next
  assume "data = Obj []"
  then have "roi_list (snd (render_roi_names data st)) =
      set_innerHTML (''<li>Error: '' @ ''undefined'' @ ''</li>'')"
    by (simp add: render_roi_names_list)
  also have "\<dots> = [Li (''Error: '' @ ''undefined'') None]"
    by (simp only: error_markup) (simp add: plain_text_def)
  finally show "roi_list (snd (render_roi_names data st)) = [Li ''Error: undefined'' None]"
    by simp
next
  assume "get data ''roi_names'' = Inr (Arr [])"
  then show "roi_list (snd (render_roi_names data st)) = []"
    by (simp add: render_roi_names_list)
next
  assume a: "get data ''roi_names'' = Inr w \<and> truthy w \<and> (\<forall>xs. w \<noteq> Arr xs)"
  then obtain e' where "forEach_of w = Inl e'" using forEach_of_Inl by blast
  with a show "roi_list (snd (render_roi_names data st)) = []"
    by (simp add: render_roi_names_list)
qed

lemma snd_run: "snd (run m st) = snd (m st)"
  by (simp add: run_def case_prod_beta split: sum.splits)

lemma upload_roi_list:
  "json_body resp = Inr data \<Longrightarrow>
   roi_list (snd (uploadDicomFolder (Responded resp) st)) =
   roi_list (snd (render_roi_names data (st\<lparr>effects := effects st @
     [Fetch \<lparr>http_method = ''POST'', url = ''/roi/upload_dicom'', headers = [],
        body = FormData (map (\<lambda>file. (''dicom_folder'', file)) (dicom_folder st))\<rparr>,
      ReadJson]\<rparr>)))"
  by (simp add: uploadDicomFolder_def snd_run bind_def gets_def fetch_def response_json_def
      emit_def modify_def return_def)

lemma loadSelected_roi_list:
  "json_body resp = Inr data \<Longrightarrow> select_value (datasetDropdown st) \<noteq> [] \<Longrightarrow>
   roi_list (snd (loadSelectedDataset (Responded resp) st)) =
   roi_list (snd (render_roi_names data (st\<lparr>effects := effects st @
     [Fetch (GET (''/load_data/'' @ select_value (datasetDropdown st))), ReadJson]\<rparr>)))"
  by (simp add: loadSelectedDataset_def snd_run bind_def gets_def fetch_def response_json_def
      emit_def modify_def return_def)

text \<open>
  Claim C9, amended. Once the body has parsed, uploadDicomFolder and
  loadSelectedDataset (with a dataset selected) fill the ROI list from the payload as
  follows. When reading \<^verbatim>\<open>roi_names\<close> gives a falsy value (the field is absent, or is
  \<^verbatim>\<open>null\<close>, \<^verbatim>\<open>false\<close>, zero or the empty string) and the payload's \<^verbatim>\<open>error\<close>
  converts to a string, the list is what the browser makes of the markup
  \<^verbatim>\<open><li>Error: text</li>\<close>: the single item reading \<^verbatim>\<open>Error: text\<close> when the text
  holds no markup. When \<^verbatim>\<open>roi_names\<close> is an array whose names convert, the list holds
  one item per name, in order. The empty object gives the single item
  \<^verbatim>\<open>Error: undefined\<close>; an empty \<^verbatim>\<open>roi_names\<close> array gives the empty list. A truthy
  \<^verbatim>\<open>roi_names\<close> that is no array leaves the list empty.
\<close>

theorem name_list_error_item:
  assumes "json_body resp = Inr data"
  shows
  "((get data ''roi_names'' = Inr v \<and> \<not> truthy v \<and> get data ''error'' = Inr e \<and>
     to_string e = Inr s \<longrightarrow>
       roi_list (snd (uploadDicomFolder (Responded resp) st)) =
         set_innerHTML (''<li>Error: '' @ s @ ''</li>'') \<and>
       (plain_text s \<longrightarrow>
          roi_list (snd (uploadDicomFolder (Responded resp) st)) =
            [Li (''Error: '' @ s) None])) \<and>
    (get data ''roi_names'' = Inr (Arr names) \<and> map textContent_of names = map Inr ts \<longrightarrow>
       roi_list (snd (uploadDicomFolder (Responded resp) st)) = map (\<lambda>t. Li t None) ts) \<and>
    (data = Obj [] \<longrightarrow>
       roi_list (snd (uploadDicomFolder (Responded resp) st)) =
         [Li ''Error: undefined'' None]) \<and>
    (get data ''roi_names'' = Inr (Arr []) \<longrightarrow>
       roi_list (snd (uploadDicomFolder (Responded resp) st)) = []) \<and>
    (get data ''roi_names'' = Inr w \<and> truthy w \<and> (\<forall>xs. w \<noteq> Arr xs) \<longrightarrow>
       roi_list (snd (uploadDicomFolder (Responded resp) st)) = [])) \<and>
   (select_value (datasetDropdown st) \<noteq> [] \<longrightarrow>
    (get data ''roi_names'' = Inr v \<and> \<not> truthy v \<and> get data ''error'' = Inr e \<and>
     to_string e = Inr s \<longrightarrow>
       roi_list (snd (loadSelectedDataset (Responded resp) st)) =
         set_innerHTML (''<li>Error: '' @ s @ ''</li>'') \<and>
       (plain_text s \<longrightarrow>
          roi_list (snd (loadSelectedDataset (Responded resp) st)) =
            [Li (''Error: '' @ s) None])) \<and>
    (get data ''roi_names'' = Inr (Arr names) \<and> map textContent_of names = map Inr ts \<longrightarrow>
       roi_list (snd (loadSelectedDataset (Responded resp) st)) = map (\<lambda>t. Li t None) ts) \<and>
    (data = Obj [] \<longrightarrow>
       roi_list (snd (loadSelectedDataset (Responded resp) st)) =
         [Li ''Error: undefined'' None]) \<and>
    (get data ''roi_names'' = Inr (Arr []) \<longrightarrow>
       roi_list (snd (loadSelectedDataset (Responded resp) st)) = []) \<and>
    (get data ''roi_names'' = Inr w \<and> truthy w \<and> (\<forall>xs. w \<noteq> Arr xs) \<longrightarrow>
       roi_list (snd (loadSelectedDataset (Responded resp) st)) = []))"
proof (rule conjI)
  show "(get data ''roi_names'' = Inr v \<and> \<not> truthy v \<and> get data ''error'' = Inr e \<and>
     to_string e = Inr s \<longrightarrow>
       roi_list (snd (uploadDicomFolder (Responded resp) st)) =
         set_innerHTML (''<li>Error: '' @ s @ ''</li>'') \<and>
       (plain_text s \<longrightarrow>
          roi_list (snd (uploadDicomFolder (Responded resp) st)) =
            [Li (''Error: '' @ s) None])) \<and>
    (get data ''roi_names'' = Inr (Arr names) \<and> map textContent_of names = map Inr ts \<longrightarrow>
       roi_list (snd (uploadDicomFolder (Responded resp) st)) = map (\<lambda>t. Li t None) ts) \<and>
    (data = Obj [] \<longrightarrow>
       roi_list (snd (uploadDicomFolder (Responded resp) st)) =
         [Li ''Error: undefined'' None]) \<and>
    (get data ''roi_names'' = Inr (Arr []) \<longrightarrow>
       roi_list (snd (uploadDicomFolder (Responded resp) st)) = []) \<and>
    (get data ''roi_names'' = Inr w \<and> truthy w \<and> (\<forall>xs. w \<noteq> Arr xs) \<longrightarrow>
       roi_list (snd (uploadDicomFolder (Responded resp) st)) = [])"
    by (rule render_roi_names_shape) (rule upload_roi_list [OF assms])
next
  show "select_value (datasetDropdown st) \<noteq> [] \<longrightarrow>
    (get data ''roi_names'' = Inr v \<and> \<not> truthy v \<and> get data ''error'' = Inr e \<and>
     to_string e = Inr s \<longrightarrow>
       roi_list (snd (loadSelectedDataset (Responded resp) st)) =
         set_innerHTML (''<li>Error: '' @ s @ ''</li>'') \<and>
       (plain_text s \<longrightarrow>
          roi_list (snd (loadSelectedDataset (Responded resp) st)) =
            [Li (''Error: '' @ s) None])) \<and>
    (get data ''roi_names'' = Inr (Arr names) \<and> map textContent_of names = map Inr ts \<longrightarrow>
       roi_list (snd (loadSelectedDataset (Responded resp) st)) = map (\<lambda>t. Li t None) ts) \<and>
    (data = Obj [] \<longrightarrow>
       roi_list (snd (loadSelectedDataset (Responded resp) st)) =
         [Li ''Error: undefined'' None]) \<and>
    (get data ''roi_names'' = Inr (Arr []) \<longrightarrow>
       roi_list (snd (loadSelectedDataset (Responded resp) st)) = []) \<and>
    (get data ''roi_names'' = Inr w \<and> truthy w \<and> (\<forall>xs. w \<noteq> Arr xs) \<longrightarrow>
       roi_list (snd (loadSelectedDataset (Responded resp) st)) = [])"
    by (rule impI, rule render_roi_names_shape, erule loadSelected_roi_list [OF assms])
qed

theorem name_list_error_item_witness:
  "json_body (json_response 200 ''{}'' (Obj [])) = Inr (Obj []) \<and>
   select_value (datasetDropdown example_page) \<noteq> [] \<and>
   roi_list (snd (uploadDicomFolder (Responded (json_response 200 ''{}'' (Obj []))) example_page))
     = [Li ''Error: undefined'' None] \<and>
   roi_list (snd (loadSelectedDataset (Responded (json_response 200 ''{}'' (Obj [])))
     example_page)) = [Li ''Error: undefined'' None] \<and>
   get roi_names_empty ''roi_names'' = Inr (Arr []) \<and>
   roi_list (snd (uploadDicomFolder
     (Responded (json_response 200 roi_names_empty_text roi_names_empty)) example_page)) = [] \<and>
   roi_list (snd (loadSelectedDataset
     (Responded (json_response 200 roi_names_empty_text roi_names_empty)) example_page)) = [] \<and>
   get roi_names_two ''roi_names'' = Inr (Arr [Str ''GTV'', Str ''Heart'']) \<and>
   map textContent_of [Str ''GTV'', Str ''Heart''] = map Inr [''GTV'', ''Heart''] \<and>
   roi_list (snd (loadSelectedDataset
     (Responded (json_response 200 roi_names_two_text roi_names_two)) example_page)) =
     [Li ''GTV'' None, Li ''Heart'' None] \<and>
   get server_error ''roi_names'' = Inr Undefined \<and>
   get server_error ''error'' = Inr (Str ''No RTSTRUCT found'') \<and>
   plain_text ''No RTSTRUCT found'' \<and>
   roi_list (snd (uploadDicomFolder
     (Responded (json_response 400 server_error_text server_error)) example_page)) =
     [Li ''Error: No RTSTRUCT found'' None] \<and>
   get roi_names_string ''roi_names'' = Inr (Str ''GTV'') \<and>
   roi_list (snd (uploadDicomFolder
     (Responded (json_response 200 roi_names_string_text roi_names_string)) example_page)) = []"
proof -
  have a: "json_body (json_response 200 ''{}'' (Obj [])) = Inr (Obj [])"
    by (simp add: json_response_def)
  have b: "json_body (json_response 200 roi_names_empty_text roi_names_empty) =
      Inr roi_names_empty"
    by (simp add: json_response_def)
  have b2: "json_body (json_response 200 roi_names_two_text roi_names_two) = Inr roi_names_two"
    by (simp add: json_response_def)
  have b3: "json_body (json_response 400 server_error_text server_error) = Inr server_error"
    by (simp add: json_response_def)
  have b4: "json_body (json_response 200 roi_names_string_text roi_names_string) =
      Inr roi_names_string"
    by (simp add: json_response_def)
  have c: "select_value (datasetDropdown example_page) \<noteq> []"
    by (simp add: example_page_def select_value_def defaultOption_def)
  have d: "get roi_names_empty ''roi_names'' = Inr (Arr [])"
    by (simp add: roi_names_empty_def)
  have d2: "get roi_names_two ''roi_names'' = Inr (Arr [Str ''GTV'', Str ''Heart''])"
    "map textContent_of [Str ''GTV'', Str ''Heart''] = map Inr [''GTV'', ''Heart'']"
    by (simp_all add: roi_names_two_def textContent_of_def)
  have d3: "get server_error ''roi_names'' = Inr Undefined"
    "get server_error ''error'' = Inr (Str ''No RTSTRUCT found'')"
    "to_string (Str ''No RTSTRUCT found'') = Inr ''No RTSTRUCT found''"
    "plain_text ''No RTSTRUCT found''"
    by (simp_all add: server_error_def plain_text_def)
  have d4: "get roi_names_string ''roi_names'' = Inr (Str ''GTV'')"
    by (simp add: roi_names_string_def)
  have w1: "roi_list (snd (uploadDicomFolder (Responded (json_response 200 ''{}'' (Obj [])))
        example_page)) = [Li ''Error: undefined'' None]"
    "roi_list (snd (loadSelectedDataset (Responded (json_response 200 ''{}'' (Obj [])))
        example_page)) = [Li ''Error: undefined'' None]"
    using c name_list_error_item [OF a, of Undefined Undefined "[]" example_page "[]" "[]"
        Undefined]
    by simp_all
  have w2: "roi_list (snd (uploadDicomFolder
        (Responded (json_response 200 roi_names_empty_text roi_names_empty)) example_page)) = []"
    "roi_list (snd (loadSelectedDataset
        (Responded (json_response 200 roi_names_empty_text roi_names_empty)) example_page)) = []"
    using c d name_list_error_item [OF b, of Undefined Undefined "[]" example_page "[]" "[]"
        Undefined]
    by simp_all
  have w3: "roi_list (snd (loadSelectedDataset
        (Responded (json_response 200 roi_names_two_text roi_names_two)) example_page)) =
      [Li ''GTV'' None, Li ''Heart'' None]"
    using c d2 name_list_error_item [OF b2, of Undefined Undefined "[]" example_page
        "[Str ''GTV'', Str ''Heart'']" "[''GTV'', ''Heart'']" Undefined]
    by simp
  have w4: "roi_list (snd (uploadDicomFolder
        (Responded (json_response 400 server_error_text server_error)) example_page)) =
      [Li ''Error: No RTSTRUCT found'' None]"
    using d3 name_list_error_item [OF b3, of Undefined "Str ''No RTSTRUCT found''"
        "''No RTSTRUCT found''" example_page "[]" "[]" Undefined]
    by (simp add: set_innerHTML_def plain_text_def)
  have w5: "roi_list (snd (uploadDicomFolder
        (Responded (json_response 200 roi_names_string_text roi_names_string)) example_page)) = []"
    using d4 name_list_error_item [OF b4, of Undefined Undefined "[]" example_page "[]" "[]"
        "Str ''GTV''"]
    by simp
  from a c d d2 d3 d4 w1 w2 w3 w4 w5 show ?thesis by simp
qed

text \<open>
  The claim as first stated fails: the error item does not go with the absence of the
  field. In the payload \<^verbatim>\<open>{"roi_names":null}\<close> the field is present, and the list
  shows the error item. The payload \<^verbatim>\<open>{"roi_names":["Error: undefined"]}\<close> has the
  array, and its list is the one the empty object gives. In the payload
  \<^verbatim>\<open>{"roi_names":"GTV"}\<close> there is no array, and the list shows no error item: it is
  left empty, and the promise is rejected.
\<close>

theorem roi_names_null_renders_error_item:
  "map_of [(''roi_names'', Null)] ''roi_names'' = Some Null \<and>
   uploadDicomFolder (Responded (json_response 200 roi_names_null_text roi_names_null))
       blank_page =
     (Fulfilled, blank_page\<lparr>roi_list := [Li ''Error: undefined'' None],
        effects := [Fetch \<lparr>http_method = ''POST'', url = ''/roi/upload_dicom'', headers = [],
                            body = FormData []\<rparr>, ReadJson]\<rparr>) \<and>
   uploadDicomFolder (Responded (json_response 200 roi_names_lookalike_text roi_names_lookalike))
       blank_page =
     uploadDicomFolder (Responded (json_response 200 ''{}'' (Obj []))) blank_page \<and>
   uploadDicomFolder (Responded (json_response 200 roi_names_string_text roi_names_string))
       example_page =
     (Rejected (TypeError ''forEach is not a function''),
      example_page\<lparr>roi_list := [],
        effects := [Fetch \<lparr>http_method = ''POST'', url = ''/roi/upload_dicom'', headers = [],
          body = FormData [(''dicom_folder'', ''CT_001.dcm''),
                           (''dicom_folder'', ''RS_001.dcm'')]\<rparr>, ReadJson]\<rparr>)"
  by (simp add: json_response_def roi_names_null_def roi_names_string_def
      roi_names_lookalike_def blank_page_def example_page_def uploadDicomFolder_def
      render_roi_names_def append_roi_def textContent_of_def set_innerHTML_def plain_text_def
      js_defs)

subsection \<open>Which operations look at the status\<close>

lemma forEach_effects:
  assumes "\<And>x st. effects (snd (f x st)) = effects st"
  shows "effects (snd (forEach f xs st)) = effects st"
proof (induction xs arbitrary: st)
  case Nil
  show ?case by simp
next
  case (Cons x xs)
  have fx: "effects (snd (f x st)) = effects st" by (rule assms)
  show ?case
  proof (cases "f x st")
    case (Pair res st')
    with fx have st': "effects st' = effects st" by simp
    show ?thesis
    proof (cases res)
      case (Inl e)
      with Pair st' show ?thesis by simp
    next
      case (Inr u)
      with Pair st' Cons.IH [of st'] show ?thesis by simp
    qed
  qed
qed

lemma append_roi_effects: "effects (snd (append_roi name st)) = effects st"
  by (simp add: append_roi_def bind_def lift_def modify_def split: sum.splits)

lemma append_dataset_effects: "effects (snd (append_dataset name st)) = effects st"
  by (simp add: append_dataset_def bind_def lift_def modify_def split: sum.splits)

lemma append_option_effects: "effects (snd (append_option name st)) = effects st"
  by (simp add: append_option_def bind_def lift_def modify_def split: sum.splits)

lemma append_patient_effects: "effects (snd (append_patient p st)) = effects st"
  by (simp add: append_patient_def bind_def lift_def modify_def split: sum.splits)

lemma render_roi_names_effects: "effects (snd (render_roi_names data st)) = effects st"
  by (simp add: render_roi_names_def bind_def lift_def modify_def forEach_effects
      append_roi_effects case_prod_beta split: sum.splits)

lemma upload_reads_json:
  "ReadJson \<in> set (effects (snd (uploadDicomFolder (Responded resp) st)))"
  by (simp add: uploadDicomFolder_def snd_run bind_def gets_def fetch_def response_json_def
      emit_def modify_def return_def throw_def render_roi_names_effects split: sum.splits)

lemma loadSelected_reads_json:
  "select_value (datasetDropdown st) \<noteq> [] \<Longrightarrow>
   ReadJson \<in> set (effects (snd (loadSelectedDataset (Responded resp) st)))"
  by (simp add: loadSelectedDataset_def snd_run bind_def gets_def fetch_def response_json_def
      emit_def modify_def return_def throw_def render_roi_names_effects split: sum.splits)

lemma loadPatients_reads_json:
  "ReadJson \<in> set (effects (snd (loadPatients (Responded resp) st)))"
  by (simp add: loadPatients_def js_defs forEach_effects append_patient_effects case_prod_beta
      split: sum.splits)

lemma listDatasets_reads_json:
  "ReadJson \<in> set (effects (snd (listDatasets (Responded resp) st)))"
  by (simp add: listDatasets_def js_defs forEach_effects append_option_effects case_prod_beta
      split: sum.splits)

lemma loadDatasets_reads_json:
  "ReadJson \<in> set (effects (snd (loadDatasets (Responded resp) st)))"
  by (simp add: loadDatasets_def loadDatasets_try_def js_defs forEach_effects
      append_dataset_effects case_prod_beta split: sum.splits)

lemma createPatient_settle_keeps:
  "ev \<in> set (effects st) \<Longrightarrow> ev \<in> set (effects (snd (createPatient_settle resp data st)))"
  by (simp add: createPatient_settle_def js_defs case_prod_beta split: sum.splits)

lemma createPatient_parses:
  assumes "trim (patient_id st) \<noteq> []" "trim (patient_first_name st) \<noteq> []"
    "trim (patient_last_name st) \<noteq> []"
    "content_type resp = Some ct" "str_includes ct ''application/json''"
    "trim (text_body resp) \<noteq> []"
  shows "ParseJson \<in> set (effects (snd (createPatient (Responded resp) st)))"
proof -
  from assms(5) have ct: "ct \<noteq> []" by (cases ct) auto
  from assms(6) have tx: "text_body resp \<noteq> []" by (auto simp: trim_def)
  show ?thesis
    using assms ct tx
    by (simp add: createPatient_def createPatient_try_def js_defs case_prod_beta
        createPatient_settle_keeps split: sum.splits)
qed

lemma bind_fetch:
  "bind (fetch req (Responded resp)) k = (\<lambda>st. k resp (st\<lparr>effects := effects st @ [Fetch req]\<rparr>))"
  by (rule ext) (simp add: js_defs)

lemma bind_response_json:
  "bind (response_json resp) k =
     (\<lambda>st. case json_body resp of
        Inl m \<Rightarrow> (Inl (SyntaxError m), st\<lparr>effects := effects st @ [ReadJson]\<rparr>)
      | Inr v \<Rightarrow> k v (st\<lparr>effects := effects st @ [ReadJson]\<rparr>))"
  by (rule ext) (simp add: js_defs split: sum.splits)

lemma status_ignored:
  "uploadDicomFolder (Responded (resp\<lparr>status := n\<rparr>)) st =
     uploadDicomFolder (Responded resp) st"
  "loadDatasets (Responded (resp\<lparr>status := n\<rparr>)) st = loadDatasets (Responded resp) st"
  "listDatasets (Responded (resp\<lparr>status := n\<rparr>)) st = listDatasets (Responded resp) st"
  "loadPatients (Responded (resp\<lparr>status := n\<rparr>)) st = loadPatients (Responded resp) st"
  "loadSelectedDataset (Responded (resp\<lparr>status := n\<rparr>)) st =
     loadSelectedDataset (Responded resp) st"
  by (simp_all add: uploadDicomFolder_def loadDatasets_def loadDatasets_try_def listDatasets_def
      loadPatients_def loadSelectedDataset_def bind_fetch bind_response_json cong: if_cong)

lemma createPatient_parses_first:
  assumes "trim (patient_id st) \<noteq> []" "trim (patient_first_name st) \<noteq> []"
    "trim (patient_last_name st) \<noteq> []"
    "content_type resp = Some ct" "str_includes ct ''application/json''"
    "trim (text_body resp) \<noteq> []"
  shows "\<exists>es. effects (snd (createPatient (Responded resp) st)) =
     effects st @ Fetch \<lparr>http_method = ''POST'', url = ''/patients/create'',
        headers = [(''Content-Type'', ''application/json'')],
        body = JsonText (Obj [
          (''id'', Str (trim (patient_id st))),
          (''name'', Str (full_name (trim (patient_first_name st))
             (trim (patient_middle_name st)) (trim (patient_last_name st)))),
          (''birthDate'', Str (patient_dob st)),
          (''sex'', Str (patient_sex st))])\<rparr> # ReadText # ParseJson # es"
proof -
  from assms(5) have ct: "ct \<noteq> []" by (cases ct) auto
  from assms(6) have tx: "text_body resp \<noteq> []" by (auto simp: trim_def)
  have grow: "\<exists>es. effects (snd (createPatient_settle resp data (st'\<lparr>effects := a\<rparr>))) = a @ es"
    for data a and st' :: page
    using createPatient_settle_grows [of resp data "st'\<lparr>effects := a\<rparr>"] by simp
  show ?thesis
  proof (cases "json_body resp")
    case (Inl m)
    with assms ct tx show ?thesis
      by (simp add: createPatient_def createPatient_try_def js_defs)
  next
    case (Inr data)
    let ?F = "Fetch \<lparr>http_method = ''POST'', url = ''/patients/create'',
        headers = [(''Content-Type'', ''application/json'')],
        body = JsonText (Obj [
          (''id'', Str (trim (patient_id st))),
          (''name'', Str (full_name (trim (patient_first_name st))
             (trim (patient_middle_name st)) (trim (patient_last_name st)))),
          (''birthDate'', Str (patient_dob st)),
          (''sex'', Str (patient_sex st))])\<rparr>"
    obtain es where es: "effects (snd (createPatient_settle resp data
        (st\<lparr>effects := effects st @ [?F, ReadText, ParseJson]\<rparr>))) =
        (effects st @ [?F, ReadText, ParseJson]) @ es"
      using grow by blast
    from assms ct tx Inr es show ?thesis
      by (simp add: createPatient_def createPatient_try_def js_defs case_prod_beta
          split: sum.splits)
  qed
qed

lemma createPatient_error_status:
  assumes "trim (patient_id st) \<noteq> []" "trim (patient_first_name st) \<noteq> []"
    "trim (patient_last_name st) \<noteq> []"
    "content_type resp = Some ct" "str_includes ct ''application/json''"
    "trim (text_body resp) \<noteq> []"
    "\<not> ok resp" "json_body resp = Inr data" "get data ''error'' = Inr e" "truthy e"
    "to_string e = Inr s"
  shows "createPatient (Responded resp) st =
     (Fulfilled, st\<lparr>effects := effects st @
        [Fetch \<lparr>http_method = ''POST'', url = ''/patients/create'',
           headers = [(''Content-Type'', ''application/json'')],
           body = JsonText (Obj [
             (''id'', Str (trim (patient_id st))),
             (''name'', Str (full_name (trim (patient_first_name st))
                (trim (patient_middle_name st)) (trim (patient_last_name st)))),
             (''birthDate'', Str (patient_dob st)),
             (''sex'', Str (patient_sex st))])\<rparr>,
         ReadText, ParseJson, Alert (''Error: '' @ s)]\<rparr>)"
proof -
  from assms(5) have ct: "ct \<noteq> []" by (cases ct) auto
  from assms(6) have tx: "text_body resp \<noteq> []" by (auto simp: trim_def)
  from assms ct tx show ?thesis
    by (simp add: createPatient_def createPatient_try_def createPatient_settle_def js_defs)
qed

text \<open>
  Claim C1, amended. Only fetchDoseData checks the status before it reads the body: for
  every response with a status outside 200 to 299 its validation fails with
  \<open>ServerError\<close> carrying the status, and the body is never read. uploadDicomFolder,
  loadDatasets, listDatasets, loadPatients and loadSelectedDataset do not look at the
  status: they read the body as JSON, and a response does to them what the same
  response with any other status does. createPatient (with its required fields
  filled), given a non-blank body of a JSON content type, reads and parses it straight
  after the request, whatever the status, and looks at the status afterwards: when the
  status is outside 200 to 299 and the parsed body has a truthy \<^verbatim>\<open>error\<close>, it alerts
  that text.
\<close>

theorem status_checked_by_fetchDoseData_only:
  "(\<not> ok resp \<longrightarrow>
      fetchDoseData_try (Responded resp) st =
        (Inl (ServerError (status resp)),
         st\<lparr>effects := effects st @ [Fetch (GET ''/plotly/compute_dose'')]\<rparr>)) \<and>
   ReadJson \<in> set (effects (snd (uploadDicomFolder (Responded resp) st))) \<and>
   ReadJson \<in> set (effects (snd (loadDatasets (Responded resp) st))) \<and>
   ReadJson \<in> set (effects (snd (listDatasets (Responded resp) st))) \<and>
   ReadJson \<in> set (effects (snd (loadPatients (Responded resp) st))) \<and>
   (select_value (datasetDropdown st) \<noteq> [] \<longrightarrow>
      ReadJson \<in> set (effects (snd (loadSelectedDataset (Responded resp) st)))) \<and>
   (trim (patient_id st) \<noteq> [] \<and> trim (patient_first_name st) \<noteq> [] \<and>
    trim (patient_last_name st) \<noteq> [] \<and> content_type resp = Some ct \<and>
    str_includes ct ''application/json'' \<and> trim (text_body resp) \<noteq> [] \<longrightarrow>
      ParseJson \<in> set (effects (snd (createPatient (Responded resp) st)))) \<and>
   uploadDicomFolder (Responded (resp\<lparr>status := n\<rparr>)) st =
     uploadDicomFolder (Responded resp) st \<and>
   loadDatasets (Responded (resp\<lparr>status := n\<rparr>)) st = loadDatasets (Responded resp) st \<and>
   listDatasets (Responded (resp\<lparr>status := n\<rparr>)) st = listDatasets (Responded resp) st \<and>
   loadPatients (Responded (resp\<lparr>status := n\<rparr>)) st = loadPatients (Responded resp) st \<and>
   loadSelectedDataset (Responded (resp\<lparr>status := n\<rparr>)) st =
     loadSelectedDataset (Responded resp) st \<and>
   (trim (patient_id st) \<noteq> [] \<and> trim (patient_first_name st) \<noteq> [] \<and>
    trim (patient_last_name st) \<noteq> [] \<and> content_type resp = Some ct \<and>
    str_includes ct ''application/json'' \<and> trim (text_body resp) \<noteq> [] \<longrightarrow>
      (\<exists>es. effects (snd (createPatient (Responded resp) st)) =
         effects st @ Fetch \<lparr>http_method = ''POST'', url = ''/patients/create'',
           headers = [(''Content-Type'', ''application/json'')],
           body = JsonText (Obj [
             (''id'', Str (trim (patient_id st))),
             (''name'', Str (full_name (trim (patient_first_name st))
                (trim (patient_middle_name st)) (trim (patient_last_name st)))),
             (''birthDate'', Str (patient_dob st)),
             (''sex'', Str (patient_sex st))])\<rparr> # ReadText # ParseJson # es) \<and>
      (\<not> ok resp \<and> json_body resp = Inr data \<and> get data ''error'' = Inr e \<and> truthy e \<and>
       to_string e = Inr s \<longrightarrow>
         createPatient (Responded resp) st =
           (Fulfilled, st\<lparr>effects := effects st @
              [Fetch \<lparr>http_method = ''POST'', url = ''/patients/create'',
                 headers = [(''Content-Type'', ''application/json'')],
                 body = JsonText (Obj [
                   (''id'', Str (trim (patient_id st))),
                   (''name'', Str (full_name (trim (patient_first_name st))
                      (trim (patient_middle_name st)) (trim (patient_last_name st)))),
                   (''birthDate'', Str (patient_dob st)),
                   (''sex'', Str (patient_sex st))])\<rparr>,
               ReadText, ParseJson, Alert (''Error: '' @ s)]\<rparr>)))"
proof (intro conjI)
  show "\<not> ok resp \<longrightarrow>
      fetchDoseData_try (Responded resp) st =
        (Inl (ServerError (status resp)),
         st\<lparr>effects := effects st @ [Fetch (GET ''/plotly/compute_dose'')]\<rparr>)"
    by (simp add: fetchDoseData_try_def js_defs)
qed (rule upload_reads_json loadDatasets_reads_json listDatasets_reads_json
      loadPatients_reads_json status_ignored
    | blast intro: loadSelected_reads_json createPatient_parses createPatient_parses_first
        createPatient_error_status)+

theorem status_checked_by_fetchDoseData_only_witness:
  "\<not> ok (json_response 500 server_error_text server_error) \<and>
   select_value (datasetDropdown example_page) \<noteq> [] \<and>
   trim (patient_id example_page) \<noteq> [] \<and> trim (patient_first_name example_page) \<noteq> [] \<and>
   trim (patient_last_name example_page) \<noteq> [] \<and>
   str_includes ''application/json'' ''application/json'' \<and>
   trim (text_body (json_response 500 server_error_text server_error)) \<noteq> [] \<and>
   fetchDoseData_try (Responded (json_response 500 server_error_text server_error))
       example_page =
     (Inl (ServerError 500),
      example_page\<lparr>effects := [Fetch (GET ''/plotly/compute_dose'')]\<rparr>) \<and>
   ReadJson \<in> set (effects (snd (loadSelectedDataset
     (Responded (json_response 500 server_error_text server_error)) example_page))) \<and>
   ParseJson \<in> set (effects (snd (createPatient
     (Responded (json_response 500 server_error_text server_error)) example_page))) \<and>
   uploadDicomFolder (Responded (json_response 200 server_error_text server_error))
       example_page =
     uploadDicomFolder (Responded (json_response 500 server_error_text server_error))
       example_page \<and>
   createPatient (Responded (json_response 500 server_error_text server_error)) example_page =
     (Fulfilled, example_page\<lparr>effects :=
        [Fetch \<lparr>http_method = ''POST'', url = ''/patients/create'',
           headers = [(''Content-Type'', ''application/json'')],
           body = JsonText (Obj [(''id'', Str ''1''), (''name'', Str ''Jane Doe''),
             (''birthDate'', Str ''2000-01-01''), (''sex'', Str ''F'')])\<rparr>,
         ReadText, ParseJson, Alert ''Error: No RTSTRUCT found'']\<rparr>)"
proof -
  let ?r = "json_response 500 server_error_text server_error"
  have a: "\<not> ok ?r" by (simp add: ok_def json_response_def)
  have b: "select_value (datasetDropdown example_page) \<noteq> []"
    by (simp add: example_page_def select_value_def defaultOption_def)
  have c: "trim (patient_id example_page) = ''1''"
    "trim (patient_first_name example_page) = ''Jane''"
    "trim (patient_middle_name example_page) = []"
    "trim (patient_last_name example_page) = ''Doe''"
    "patient_dob example_page = ''2000-01-01''" "patient_sex example_page = ''F''"
    by (simp_all add: example_page_def trim_def is_space_def)
  have d: "str_includes ''application/json'' ''application/json''" by simp
  have e: "content_type ?r = Some ''application/json''"
    "trim (text_body ?r) \<noteq> []" "status ?r = 500" "json_body ?r = Inr server_error"
    "?r\<lparr>status := 200\<rparr> = json_response 200 server_error_text server_error"
    by (simp_all add: json_response_def server_error_text_def trim_def is_space_def)
  have f: "effects example_page = []" by (simp add: example_page_def)
  have g: "get server_error ''error'' = Inr (Str ''No RTSTRUCT found'')"
    "truthy (Str ''No RTSTRUCT found'')"
    "to_string (Str ''No RTSTRUCT found'') = Inr ''No RTSTRUCT found''"
    "full_name ''Jane'' [] ''Doe'' = ''Jane Doe''"
    by (simp_all add: server_error_def full_name_def trim_def is_space_def)
  from status_checked_by_fetchDoseData_only [of ?r example_page "''application/json''" 200
      server_error "Str ''No RTSTRUCT found''" "''No RTSTRUCT found''"]
  show ?thesis unfolding c e f g using a b d e(2) by simp
qed

text \<open>
  The claim as first stated fails: uploadDicomFolder, given a response of status 500,
  reads its body as JSON and renders it; nothing like a \<open>ServerError\<close> results.
\<close>

theorem uploadDicomFolder_parses_status_500:
  "\<not> ok (json_response 500 ''{}'' (Obj [])) \<and>
   uploadDicomFolder (Responded (json_response 500 ''{}'' (Obj []))) blank_page =
     (Fulfilled, blank_page\<lparr>roi_list := [Li ''Error: undefined'' None],
        effects := [Fetch \<lparr>http_method = ''POST'', url = ''/roi/upload_dicom'', headers = [],
                            body = FormData []\<rparr>, ReadJson]\<rparr>)"
  by (simp add: ok_def json_response_def blank_page_def uploadDicomFolder_def
      render_roi_names_def set_innerHTML_def plain_text_def js_defs)

subsection \<open>Which operations catch their failures\<close>

lemma never_throws_catch:
  fixes m :: "unit js"
  assumes "\<And>e st. fst (h e st) = Inr ()"
  shows "fst (catch m h st) = Inr ()"
  using assms by (simp add: catch_def case_prod_beta split: sum.splits)

lemma fetchDoseData_fulfilled: "fst (fetchDoseData r st) = Fulfilled"
proof -
  have "fst (catch (fetchDoseData_try r)
        (\<lambda>error. console_error [Text ''Error fetching dose data:'', Err error]) st') = Inr ()"
    for st'
    by (rule never_throws_catch) (simp add: console_error_def emit_def modify_def)
  then show ?thesis
    by (simp add: fetchDoseData_def run_def bind_def console_log_def emit_def modify_def
        case_prod_beta)
qed

lemma loadDatasets_fulfilled: "fst (loadDatasets r st) = Fulfilled"
proof -
  have "fst (catch (loadDatasets_try r)
        (\<lambda>err. bind (console_error [Text ''Failed to load datasets'', Err err]) (\<lambda>_.
            modify (\<lambda>st. st\<lparr>dataset_list := set_innerHTML ''<li>Fetch error</li>''\<rparr>))) st')
        = Inr ()" for st'
    by (rule never_throws_catch) (simp add: console_error_def emit_def modify_def bind_def)
  then show ?thesis
    by (simp add: loadDatasets_def run_def bind_def modify_def case_prod_beta)
qed

lemma createPatient_fulfilled: "fst (createPatient r st) = Fulfilled"
proof -
  have "fst (catch (createPatient_try payload r)
        (\<lambda>error. bind (console_error [Text ''Error creating patient:'', Err error]) (\<lambda>_.
                 alert (''Error: Failed to create patient. '' @ message error))) st') = Inr ()"
    for st' payload
    by (rule never_throws_catch)
      (simp add: console_error_def alert_def emit_def modify_def bind_def)
  then show ?thesis
    by (simp add: createPatient_def run_def bind_def gets_def alert_def emit_def modify_def
        case_prod_beta)
qed

text \<open>
  Claim C2, amended. fetchDoseData, loadDatasets and createPatient catch every failure
  inside them: whatever the network answers, their promise is fulfilled.
  uploadDicomFolder, listDatasets, loadPatients and loadSelectedDataset (with a dataset
  selected) have no handler: a failed request and a body that is no JSON text reject
  the promise they return, with that error.
\<close>

theorem failures_caught_where_handled:
  "fst (fetchDoseData r st) = Fulfilled \<and>
   fst (loadDatasets r st) = Fulfilled \<and>
   fst (createPatient r st) = Fulfilled \<and>
   fst (uploadDicomFolder (Failed m) st) = Rejected (NetworkFailure m) \<and>
   fst (listDatasets (Failed m) st) = Rejected (NetworkFailure m) \<and>
   fst (loadPatients (Failed m) st) = Rejected (NetworkFailure m) \<and>
   (select_value (datasetDropdown st) \<noteq> [] \<longrightarrow>
      fst (loadSelectedDataset (Failed m) st) = Rejected (NetworkFailure m)) \<and>
   (json_body resp = Inl m \<longrightarrow>
      fst (uploadDicomFolder (Responded resp) st) = Rejected (SyntaxError m) \<and>
      fst (listDatasets (Responded resp) st) = Rejected (SyntaxError m) \<and>
      fst (loadPatients (Responded resp) st) = Rejected (SyntaxError m) \<and>
      (select_value (datasetDropdown st) \<noteq> [] \<longrightarrow>
         fst (loadSelectedDataset (Responded resp) st) = Rejected (SyntaxError m)))"
  by (simp add: fetchDoseData_fulfilled loadDatasets_fulfilled createPatient_fulfilled
      uploadDicomFolder_def listDatasets_def loadPatients_def loadSelectedDataset_def js_defs)

theorem failures_caught_where_handled_witness:
  "select_value (datasetDropdown example_page) \<noteq> [] \<and>
   json_body html_response = Inl ''Unexpected token < in JSON at position 0'' \<and>
   fst (createPatient (Responded html_response) example_page) = Fulfilled \<and>
   fst (fetchDoseData (Responded html_response) example_page) = Fulfilled \<and>
   fst (loadDatasets (Responded html_response) example_page) = Fulfilled \<and>
   fst (loadSelectedDataset (Responded html_response) example_page) =
     Rejected (SyntaxError ''Unexpected token < in JSON at position 0'') \<and>
   fst (loadPatients (Responded html_response) example_page) =
     Rejected (SyntaxError ''Unexpected token < in JSON at position 0'')"
proof -
  have a: "select_value (datasetDropdown example_page) \<noteq> []"
    by (simp add: example_page_def select_value_def defaultOption_def)
  have b: "json_body html_response = Inl ''Unexpected token < in JSON at position 0''"
    by (simp add: html_response_def)
  from a b failures_caught_where_handled [of "Responded html_response" example_page
      "''Unexpected token < in JSON at position 0''" html_response]
  show ?thesis by simp
qed

text \<open>
  The claim as first stated fails: a failed request in uploadDicomFolder rejects the
  promise handed to its caller.
\<close>

theorem uploadDicomFolder_rejects_on_network_failure:
  "uploadDicomFolder (Failed ''Failed to fetch'') blank_page =
     (Rejected (NetworkFailure ''Failed to fetch''),
      blank_page\<lparr>effects := [Fetch \<lparr>http_method = ''POST'', url = ''/roi/upload_dicom'',
         headers = [], body = FormData []\<rparr>]\<rparr>)"
  by (simp add: blank_page_def uploadDicomFolder_def js_defs)

subsection \<open>The dose payload and the chart panels\<close>

lemma get_Inr_iff: "(\<exists>v. get d k = Inr v) \<longleftrightarrow> d \<noteq> Undefined \<and> d \<noteq> Null"
  by (cases d) auto

lemma get_Inl_TypeError: "get d k = Inl e \<Longrightarrow> \<exists>m. e = TypeError m"
  by (cases d) auto

lemma get_Inl_cases: "get d k = Inl e \<Longrightarrow> d = Undefined \<or> d = Null"
  by (cases d) auto

lemma get_Inl_Inr: "get d k = Inl e \<Longrightarrow> get d k' = Inr v \<Longrightarrow> False"
  by (cases d) auto

text \<open>
  Claim C3, amended. From a parsed payload of a successful response fetchDoseData reads
  the fields \<^verbatim>\<open>ct_slice\<close>, \<^verbatim>\<open>mask_slice\<close>, \<^verbatim>\<open>dose_slice\<close> and \<^verbatim>\<open>dvh\<close>, and of
  \<^verbatim>\<open>dvh\<close> its \<^verbatim>\<open>dose_values\<close> and \<^verbatim>\<open>volume_percentages\<close>; an absent field reads
  as \<^verbatim>\<open>undefined\<close> and goes to the charts as it is. There is no error for a missing
  field: the reading succeeds exactly when \<^verbatim>\<open>dvh\<close> can be read and is neither
  \<^verbatim>\<open>undefined\<close> nor \<^verbatim>\<open>null\<close>, and every failure is a \<open>TypeError\<close>. When it
  succeeds the three panels hold the plots built from the values read.
\<close>

theorem dose_payload_fields:
  "ok resp \<Longrightarrow> json_body resp = Inr data \<Longrightarrow>
   (fst (fetchDoseData_try (Responded resp) st) = Inr () \<longleftrightarrow>
      (\<exists>dvh. get data ''dvh'' = Inr dvh \<and> dvh \<noteq> Undefined \<and> dvh \<noteq> Null)) \<and>
   (\<forall>e. fst (fetchDoseData_try (Responded resp) st) = Inl e \<longrightarrow> (\<exists>m. e = TypeError m)) \<and>
   (\<forall>ct mk dose dvh dv vp.
      get data ''ct_slice'' = Inr ct \<and> get data ''mask_slice'' = Inr mk \<and>
      get data ''dose_slice'' = Inr dose \<and> get data ''dvh'' = Inr dvh \<and>
      get dvh ''dose_values'' = Inr dv \<and> get dvh ''volume_percentages'' = Inr vp \<longrightarrow>
      snd (fetchDoseData_try (Responded resp) st) =
        st\<lparr>plotly_ct_dose := Some ([heatmap ct, maskContour mk, doseMap dose], layout1),
           plotly_dvh := Some ([dvhPlot dv vp], layout2),
           plotly_ct_overlay :=
             Some ([ctLayer ct, doseLayer dose, maskLayer mk], layoutDoseOverlay),
           effects := effects st @ [Fetch (GET ''/plotly/compute_dose''), ReadJson,
             ConsoleLog [Text ''Received dose data:'', Val data],
             ConsoleLog [Text ''Finished plotting dose data'']]\<rparr>)"
  apply (simp add: fetchDoseData_try_def js_defs split: sum.splits)
  apply (auto dest: get_Inl_Inr get_Inl_TypeError get_Inl_cases simp: get_Inr_iff)
  done

theorem dose_payload_fields_witness:
  "ok (json_response 200 dose_full_text dose_full) \<and>
   json_body (json_response 200 dose_full_text dose_full) = Inr dose_full \<and>
   fetchDoseData_try (Responded (json_response 200 dose_full_text dose_full)) blank_page =
     (Inr (), blank_page\<lparr>
        plotly_ct_dose := Some ([heatmap (Arr [Arr [Num ''-1000'', Num ''0'']]),
                                 maskContour (Arr [Arr [Num ''0'', Num ''1'']]),
                                 doseMap (Arr [Arr [Num ''2'', Num ''3'']])], layout1),
        plotly_dvh := Some ([dvhPlot (Arr [Num ''0'', Num ''1'', Num ''2''])
                               (Arr [Num ''100'', Num ''80'', Num ''20''])], layout2),
        plotly_ct_overlay := Some ([ctLayer (Arr [Arr [Num ''-1000'', Num ''0'']]),
                                    doseLayer (Arr [Arr [Num ''2'', Num ''3'']]),
                                    maskLayer (Arr [Arr [Num ''0'', Num ''1'']])],
                                   layoutDoseOverlay),
        effects := [Fetch (GET ''/plotly/compute_dose''), ReadJson,
                    ConsoleLog [Text ''Received dose data:'', Val dose_full],
                    ConsoleLog [Text ''Finished plotting dose data'']]\<rparr>)"
proof -
  have a: "ok (json_response 200 dose_full_text dose_full)"
    by (simp add: ok_def json_response_def)
  have b: "json_body (json_response 200 dose_full_text dose_full) = Inr dose_full"
    by (simp add: json_response_def)
  have c: "get dose_full ''ct_slice'' = Inr (Arr [Arr [Num ''-1000'', Num ''0'']])"
    "get dose_full ''mask_slice'' = Inr (Arr [Arr [Num ''0'', Num ''1'']])"
    "get dose_full ''dose_slice'' = Inr (Arr [Arr [Num ''2'', Num ''3'']])"
    "get dose_full ''dvh'' = Inr (Obj [(''dose_values'', Arr [Num ''0'', Num ''1'', Num ''2'']),
        (''volume_percentages'', Arr [Num ''100'', Num ''80'', Num ''20''])])"
    by (simp_all add: dose_full_def)
  have d: "get (Obj [(''dose_values'', Arr [Num ''0'', Num ''1'', Num ''2'']),
        (''volume_percentages'', Arr [Num ''100'', Num ''80'', Num ''20''])]) ''dose_values'' =
      Inr (Arr [Num ''0'', Num ''1'', Num ''2''])"
    "get (Obj [(''dose_values'', Arr [Num ''0'', Num ''1'', Num ''2'']),
        (''volume_percentages'', Arr [Num ''100'', Num ''80'', Num ''20''])])
       ''volume_percentages'' = Inr (Arr [Num ''100'', Num ''80'', Num ''20''])"
    by simp_all
  have e: "effects blank_page = []" by (simp add: blank_page_def)
  from dose_payload_fields [OF a b, of blank_page]
  have f: "fst (fetchDoseData_try (Responded (json_response 200 dose_full_text dose_full))
        blank_page) = Inr ()"
    and g: "snd (fetchDoseData_try (Responded (json_response 200 dose_full_text dose_full))
        blank_page) =
      blank_page\<lparr>
        plotly_ct_dose := Some ([heatmap (Arr [Arr [Num ''-1000'', Num ''0'']]),
                                 maskContour (Arr [Arr [Num ''0'', Num ''1'']]),
                                 doseMap (Arr [Arr [Num ''2'', Num ''3'']])], layout1),
        plotly_dvh := Some ([dvhPlot (Arr [Num ''0'', Num ''1'', Num ''2''])
                               (Arr [Num ''100'', Num ''80'', Num ''20''])], layout2),
        plotly_ct_overlay := Some ([ctLayer (Arr [Arr [Num ''-1000'', Num ''0'']]),
                                    doseLayer (Arr [Arr [Num ''2'', Num ''3'']]),
                                    maskLayer (Arr [Arr [Num ''0'', Num ''1'']])],
                                   layoutDoseOverlay),
        effects := [Fetch (GET ''/plotly/compute_dose''), ReadJson,
                    ConsoleLog [Text ''Received dose data:'', Val dose_full],
                    ConsoleLog [Text ''Finished plotting dose data'']]\<rparr>"
    using c d e by simp_all
  from a b f g show ?thesis by (simp add: prod_eq_iff)
qed

text \<open>
  The claim as first stated fails: a payload without \<^verbatim>\<open>ct_slice\<close> raises nothing, all
  three panels are drawn, the CT layers from \<^verbatim>\<open>undefined\<close>.
\<close>

theorem fetchDoseData_without_ct_slice:
  "get dose_without_ct ''ct_slice'' = Inr Undefined \<and>
   fetchDoseData (Responded (json_response 200 dose_without_ct_text dose_without_ct)) blank_page =
     (Fulfilled, blank_page\<lparr>
        plotly_ct_dose := Some ([heatmap Undefined, maskContour (Arr [Arr [Num ''0'', Num ''1'']]),
                                 doseMap (Arr [Arr [Num ''2'', Num ''3'']])], layout1),
        plotly_dvh := Some ([dvhPlot (Arr [Num ''0'', Num ''1'', Num ''2''])
                               (Arr [Num ''100'', Num ''80'', Num ''20''])], layout2),
        plotly_ct_overlay := Some ([ctLayer Undefined, doseLayer (Arr [Arr [Num ''2'', Num ''3'']]),
                                    maskLayer (Arr [Arr [Num ''0'', Num ''1'']])],
                                   layoutDoseOverlay),
        effects := [ConsoleLog [Text ''Running fetchDoseData''],
                    Fetch (GET ''/plotly/compute_dose''), ReadJson,
                    ConsoleLog [Text ''Received dose data:'', Val dose_without_ct],
                    ConsoleLog [Text ''Finished plotting dose data'']]\<rparr>)"
  by (simp add: fetchDoseData_def fetchDoseData_try_def js_defs json_response_def ok_def
      blank_page_def dose_without_ct_def)

text \<open>
  Claim C4, amended. When the request fails, the status is outside 200 to 299, the
  body is no JSON text or the payload is \<^verbatim>\<open>null\<close>, fetchDoseData only logs the error:
  the page is the one it started on, with the log entries, the request and the body
  read added, and no panel has changed. In every execution that ends in the error log
  the DVH panel and the overlay panel are the ones it started with.
\<close>

theorem fetchDoseData_failure_panels:
  "fetchDoseData (Failed m) st =
     (Fulfilled, st\<lparr>effects := effects st @
        [ConsoleLog [Text ''Running fetchDoseData''], Fetch (GET ''/plotly/compute_dose''),
         ConsoleError [Text ''Error fetching dose data:'', Err (NetworkFailure m)]]\<rparr>) \<and>
   (\<not> ok resp \<longrightarrow>
    fetchDoseData (Responded resp) st =
     (Fulfilled, st\<lparr>effects := effects st @
        [ConsoleLog [Text ''Running fetchDoseData''], Fetch (GET ''/plotly/compute_dose''),
         ConsoleError [Text ''Error fetching dose data:'',
           Err (ServerError (status resp))]]\<rparr>)) \<and>
   (ok resp \<and> json_body resp = Inl m \<longrightarrow>
    fetchDoseData (Responded resp) st =
     (Fulfilled, st\<lparr>effects := effects st @
        [ConsoleLog [Text ''Running fetchDoseData''], Fetch (GET ''/plotly/compute_dose''),
         ReadJson,
         ConsoleError [Text ''Error fetching dose data:'', Err (SyntaxError m)]]\<rparr>)) \<and>
   (ok resp \<and> json_body resp = Inr Null \<longrightarrow>
    fetchDoseData (Responded resp) st =
     (Fulfilled, st\<lparr>effects := effects st @
        [ConsoleLog [Text ''Running fetchDoseData''], Fetch (GET ''/plotly/compute_dose''),
         ReadJson, ConsoleLog [Text ''Received dose data:'', Val Null],
         ConsoleError [Text ''Error fetching dose data:'',
           Err (TypeError ''Cannot read properties of null (reading ct_slice)'')]]\<rparr>)) \<and>
   (last (effects (snd (fetchDoseData r st))) =
      ConsoleError [Text ''Error fetching dose data:'', Err e] \<longrightarrow>
      plotly_dvh (snd (fetchDoseData r st)) = plotly_dvh st \<and>
      plotly_ct_overlay (snd (fetchDoseData r st)) = plotly_ct_overlay st)"
proof (intro conjI)
  show "last (effects (snd (fetchDoseData r st))) =
      ConsoleError [Text ''Error fetching dose data:'', Err e] \<longrightarrow>
      plotly_dvh (snd (fetchDoseData r st)) = plotly_dvh st \<and>
      plotly_ct_overlay (snd (fetchDoseData r st)) = plotly_ct_overlay st"
  proof (cases r)
    case (Failed m')
    then show ?thesis by (simp add: fetchDoseData_def fetchDoseData_try_def js_defs)
  next
    case (Responded resp')
    then show ?thesis
      by (simp add: fetchDoseData_def fetchDoseData_try_def js_defs split: sum.splits)
  qed
qed (simp_all add: fetchDoseData_def fetchDoseData_try_def js_defs)

theorem fetchDoseData_failure_panels_witness:
  "\<not> ok html_response \<and>
   fetchDoseData (Responded html_response) example_page =
     (Fulfilled, example_page\<lparr>effects :=
        [ConsoleLog [Text ''Running fetchDoseData''], Fetch (GET ''/plotly/compute_dose''),
         ConsoleError [Text ''Error fetching dose data:'', Err (ServerError 502)]]\<rparr>) \<and>
   ok (html_response\<lparr>status := 200\<rparr>) \<and>
   json_body (html_response\<lparr>status := 200\<rparr>) =
     Inl ''Unexpected token < in JSON at position 0'' \<and>
   fetchDoseData (Responded (html_response\<lparr>status := 200\<rparr>)) example_page =
     (Fulfilled, example_page\<lparr>effects :=
        [ConsoleLog [Text ''Running fetchDoseData''], Fetch (GET ''/plotly/compute_dose''),
         ReadJson,
         ConsoleError [Text ''Error fetching dose data:'',
           Err (SyntaxError ''Unexpected token < in JSON at position 0'')]]\<rparr>) \<and>
   ok (json_response 200 ''null'' Null) \<and>
   fetchDoseData (Responded (json_response 200 ''null'' Null)) example_page =
     (Fulfilled, example_page\<lparr>effects :=
        [ConsoleLog [Text ''Running fetchDoseData''], Fetch (GET ''/plotly/compute_dose''),
         ReadJson, ConsoleLog [Text ''Received dose data:'', Val Null],
         ConsoleError [Text ''Error fetching dose data:'',
           Err (TypeError ''Cannot read properties of null (reading ct_slice)'')]]\<rparr>) \<and>
   last (effects (snd (fetchDoseData
       (Responded (json_response 200 dose_without_dvh_text dose_without_dvh)) blank_page))) =
     ConsoleError [Text ''Error fetching dose data:'',
       Err (TypeError ''Cannot read properties of undefined (reading dose_values)'')] \<and>
   plotly_dvh (snd (fetchDoseData
       (Responded (json_response 200 dose_without_dvh_text dose_without_dvh)) blank_page)) =
     None \<and>
   plotly_ct_overlay (snd (fetchDoseData
       (Responded (json_response 200 dose_without_dvh_text dose_without_dvh)) blank_page)) =
     None"
proof -
  have a: "\<not> ok html_response" "status html_response = 502"
    by (simp_all add: ok_def html_response_def)
  have b: "ok (html_response\<lparr>status := 200\<rparr>)"
    "json_body (html_response\<lparr>status := 200\<rparr>) =
       Inl ''Unexpected token < in JSON at position 0''"
    by (simp_all add: ok_def html_response_def)
  have c: "ok (json_response 200 ''null'' Null)"
    "json_body (json_response 200 ''null'' Null) = Inr Null"
    by (simp_all add: ok_def json_response_def)
  have d: "last (effects (snd (fetchDoseData
       (Responded (json_response 200 dose_without_dvh_text dose_without_dvh)) blank_page))) =
     ConsoleError [Text ''Error fetching dose data:'',
       Err (TypeError ''Cannot read properties of undefined (reading dose_values)'')]"
    by (simp add: fetchDoseData_def fetchDoseData_try_def js_defs json_response_def ok_def
        blank_page_def dose_without_dvh_def)
  have e: "effects example_page = []" "plotly_dvh blank_page = None"
    "plotly_ct_overlay blank_page = None"
    by (simp_all add: example_page_def blank_page_def)
  from a b c d e
    fetchDoseData_failure_panels [of "[]" example_page html_response]
    fetchDoseData_failure_panels [of "''Unexpected token < in JSON at position 0''"
      example_page "html_response\<lparr>status := 200\<rparr>"]
    fetchDoseData_failure_panels [of "[]" example_page "json_response 200 ''null'' Null"]
    fetchDoseData_failure_panels [of "[]" blank_page html_response
      "Responded (json_response 200 dose_without_dvh_text dose_without_dvh)"
      "TypeError ''Cannot read properties of undefined (reading dose_values)''"]
  show ?thesis by simp
qed

text \<open>
  The claim as first stated fails: with a payload that has no \<^verbatim>\<open>dvh\<close>, the execution
  ends in the error log, and the CT panel, empty before, has been drawn.
\<close>

theorem fetchDoseData_without_dvh_redraws:
  "plotly_ct_dose blank_page = None \<and>
   fetchDoseData (Responded (json_response 200 dose_without_dvh_text dose_without_dvh))
       blank_page =
     (Fulfilled, blank_page\<lparr>
        plotly_ct_dose := Some ([heatmap (Arr [Arr [Num ''-1000'', Num ''0'']]),
                                 maskContour (Arr [Arr [Num ''0'', Num ''1'']]),
                                 doseMap (Arr [Arr [Num ''2'', Num ''3'']])], layout1),
        effects := [ConsoleLog [Text ''Running fetchDoseData''],
                    Fetch (GET ''/plotly/compute_dose''), ReadJson,
                    ConsoleLog [Text ''Received dose data:'', Val dose_without_dvh],
                    ConsoleError [Text ''Error fetching dose data:'',
                      Err (TypeError
                        ''Cannot read properties of undefined (reading dose_values)'')]]\<rparr>)"
  by (simp add: fetchDoseData_def fetchDoseData_try_def js_defs json_response_def ok_def
      blank_page_def dose_without_dvh_def)

end
